theory Spec2Isabelle
  imports Complex_Main "HOL-Library.Product_Lexorder"
begin

section \<open>Money and time primitives\<close>

text \<open>
  The backend keeps money in Python floats and rounds them to two decimals after every
  step. The embedding takes a money value as a real number with exact arithmetic, so
  \<open>round(x, 2)\<close> is rounding to the nearest hundredth with ties going to the even
  hundredth, which is what Python's \<open>round\<close> does for a value it can represent.
  Not-a-number and the infinities are outside the model.

  A \<open>datetime\<close> is an instant, counted in microseconds (the resolution of Python's
  \<open>datetime\<close>). \<open>ensure_myt_datetime\<close> re-expresses an instant in the Kuala Lumpur
  zone and leaves the instant itself alone, so on instants it returns its argument.
\<close>

type_synonym datetime = int

definition COMPOUND_INTEREST_RATE :: real where
  "COMPOUND_INTEREST_RATE = 20 / 100"

definition COMPOUND_INTERVAL :: int where
  "COMPOUND_INTERVAL = 30 * 86400 * 1000000"

abbreviation tol9 :: real where
  "tol9 \<equiv> 1 / 10 ^ 9"

definition round_half_even :: "real \<Rightarrow> int" where
  "round_half_even x =
     (let f = \<lfloor>x\<rfloor>; d = x - of_int f
      in if d < 1 / 2 then f else if 1 / 2 < d then f + 1 else if even f then f else f + 1)"

definition round2 :: "real \<Rightarrow> real" where
  "round2 x = of_int (round_half_even (x * 100)) / 100"

definition round_amount :: "real \<Rightarrow> real" where
  "round_amount v = round2 v"

definition ensure_myt_datetime :: "datetime option \<Rightarrow> datetime option" where
  "ensure_myt_datetime v = v"

definition is_money :: "real \<Rightarrow> bool" where
  "is_money x = (round2 x = x)"

section \<open>Rows of the data store\<close>

text \<open>
  One record per table of \<open>models.py\<close>, with the columns the balance and ledger
  engine reads or writes. Free text (names, notes, descriptions, customer codes) and the
  JSON payload of an event are left out: no function below branches on them. A primary
  key is \<open>Optional[int]\<close> in the source and is \<open>None\<close> until the row is flushed.
\<close>

record customer =
  c_id :: "nat option"
  projected_balance :: real
  last_principal :: real
  next_compound_at :: "datetime option"

record balance_event =
  ev_id :: nat
  ev_customer_id :: nat
  event_type :: string
  event_time :: datetime
  change_amount :: real
  balance_after :: real

record bank_transaction =
  bt_id :: nat
  transaction_type :: string
  amount :: real
  bt_balance_after :: real
  reference_type :: "string option"
  reference_id :: "nat option"
  bt_customer_id :: "nat option"

record loan =
  loan_id :: "nat option"
  loan_customer_id :: nat
  loan_code :: string
  loan_date :: datetime
  loan_amount :: real

record repayment =
  rep_id :: "nat option"
  rep_customer_id :: nat
  rep_loan_id :: "nat option"
  repayment_date :: datetime
  repayment_amount :: real

text \<open>
  The session is the unit of work over the five tables. A table is the list of its rows
  in the order they were inserted; a row is addressed by its primary key.
\<close>

record session =
  customers :: "customer list"
  loans :: "loan list"
  repayments :: "repayment list"
  balance_events :: "balance_event list"
  bank_transactions :: "bank_transaction list"

definition empty_session :: session where
  "empty_session =
     \<lparr>customers = [], loans = [], repayments = [], balance_events = [], bank_transactions = []\<rparr>"

section \<open>Balance event ledger\<close>

text \<open>
  \<open>_record_balance_event\<close>: nothing is written for a customer without a primary key
  or for a change of at most 1e-9; otherwise the event stores the rounded change and the
  customer's projected balance as it is at that moment. The event table is only ever
  appended to, so the key the store hands out is the row count plus one. Every caller
  passes an event time and drops the returned row, so the model returns the session only.
\<close>

definition record_balance_event ::
  "session \<Rightarrow> customer \<Rightarrow> string \<Rightarrow> real \<Rightarrow> datetime \<Rightarrow> session" where
  "record_balance_event s customer etype change etime =
     (case c_id customer of
        None \<Rightarrow> s
      | Some i \<Rightarrow>
          if i = 0 \<or> \<bar>change\<bar> \<le> tol9 then s
          else s\<lparr>balance_events := balance_events s @
            [\<lparr>ev_id = Suc (length (balance_events s)), ev_customer_id = i, event_type = etype,
              event_time = etime, change_amount = round_amount change,
              balance_after = round_amount (max (projected_balance customer) 0)\<rparr>]\<rparr>)"

section \<open>Balance compounding calculator\<close>

text \<open>
  The \<open>while\<close> loop of \<open>_apply_compound_growth\<close>, over the variables it changes:
  the customer, the session (\<open>None\<close> when the caller passed none), the running
  balance, the next boundary and the \<open>updated\<close> flag.
\<close>

function compound_loop ::
  "datetime \<Rightarrow> customer \<Rightarrow> session option \<Rightarrow> real \<Rightarrow> datetime \<Rightarrow> bool \<Rightarrow>
   customer \<times> session option \<times> real \<times> datetime \<times> bool" where
  "compound_loop now customer session projected nca updated =
     (if nca \<le> now then
        let previous_balance = projected;
            projected = round2 (projected * (1 + COMPOUND_INTEREST_RATE));
            increment = projected - previous_balance;
            customer = customer\<lparr>projected_balance := projected\<rparr>;
            session =
              (case session of
                 None \<Rightarrow> None
               | Some s \<Rightarrow>
                   if tol9 < increment
                   then Some (record_balance_event s customer ''compound_growth'' increment nca)
                   else Some s);
            nca = nca + COMPOUND_INTERVAL;
            customer = customer\<lparr>next_compound_at := Some nca\<rparr>
        in compound_loop now customer session projected nca True
      else (customer, session, projected, nca, updated))"
  by pat_completeness auto
termination
  by (relation "measure (\<lambda>(now, c, s, p, nca, u). nat (now + 1 - nca))")
     (auto simp: COMPOUND_INTERVAL_def)

declare compound_loop.simps [simp del]

definition apply_compound_growth ::
  "customer \<Rightarrow> datetime \<Rightarrow> session option \<Rightarrow>
   bool \<times> customer \<times> session option" where
  "apply_compound_growth customer now session =
     (let updated = False;
          projected = max (projected_balance customer) 0;
          nca = ensure_myt_datetime (next_compound_at customer);
          (customer, updated) =
            (if nca \<noteq> next_compound_at customer
             then (customer\<lparr>next_compound_at := nca\<rparr>, True) else (customer, updated))
      in if projected \<le> 0 then
           let (customer, updated) =
                 (if projected_balance customer \<noteq> 0
                  then (customer\<lparr>projected_balance := 0\<rparr>, True) else (customer, updated));
               (customer, updated) =
                 (if next_compound_at customer \<noteq> None
                  then (customer\<lparr>next_compound_at := None\<rparr>, True) else (customer, updated))
           in (updated, customer, session)
         else
           let (nca, customer, updated) =
                 (case nca of
                    None \<Rightarrow>
                      (now + COMPOUND_INTERVAL,
                       customer\<lparr>next_compound_at := Some (now + COMPOUND_INTERVAL)\<rparr>, True)
                  | Some t \<Rightarrow> (t, customer, updated));
               (customer, session, projected, nca, updated) =
                 compound_loop now customer session projected nca updated;
               (customer, updated) =
                 (if tol9 < \<bar>projected - projected_balance customer\<bar>
                  then (customer\<lparr>projected_balance := projected\<rparr>, True)
                  else (customer, updated))
           in (updated, customer, session))"

definition adjust_projected_balance ::
  "customer \<Rightarrow> real \<Rightarrow> datetime \<Rightarrow> session option \<Rightarrow>
   bool \<times> customer \<times> session option" where
  "adjust_projected_balance customer delta now session =
     (if \<bar>delta\<bar> \<le> tol9 then (False, customer, session)
      else
        let (updated, customer, session) = apply_compound_growth customer now session;
            projected = max (projected_balance customer) 0;
            projected = max (projected + delta) 0;
            projected = round2 projected;
            (customer, updated) =
              (if tol9 < \<bar>projected - projected_balance customer\<bar>
               then (customer\<lparr>projected_balance := projected\<rparr>, True)
               else (customer, updated))
        in if projected \<le> 0 then
             let (customer, updated) =
                   (if next_compound_at customer \<noteq> None
                    then (customer\<lparr>next_compound_at := None\<rparr>, True)
                    else (customer, updated))
             in (updated, customer, session)
           else
             let nca = ensure_myt_datetime (next_compound_at customer);
                 (customer, updated) =
                   (if nca \<noteq> next_compound_at customer
                    then (customer\<lparr>next_compound_at := nca\<rparr>, True)
                    else (customer, updated));
                 (customer, updated) =
                   (if next_compound_at customer = None
                    then (customer\<lparr>next_compound_at := Some (now + COMPOUND_INTERVAL)\<rparr>, True)
                    else (customer, updated))
             in (updated, customer, session))"

definition refresh_compounded_balance ::
  "customer \<Rightarrow> real \<Rightarrow> datetime \<Rightarrow> session option \<Rightarrow>
   (real \<times> datetime option \<times> bool) \<times> customer \<times> session option" where
  "refresh_compounded_balance customer actual_balance now session =
     (let recorded = last_principal customer;
          delta = actual_balance - recorded
      in if tol9 < \<bar>delta\<bar> then
           let (updated, customer, session) =
                 adjust_projected_balance customer delta now session;
               customer = customer\<lparr>last_principal := actual_balance\<rparr>
           in ((projected_balance customer, next_compound_at customer, True), customer, session)
         else
           let (updated, customer, session) = apply_compound_growth customer now session
           in ((projected_balance customer, next_compound_at customer, updated),
               customer, session))"


section \<open>The calculator as the specification words it\<close>


definition spec_compounded :: "real \<Rightarrow> real" where
  "spec_compounded x = round2 (x * (1 + COMPOUND_INTEREST_RATE))"

primrec spec_balance_after_periods :: "real \<Rightarrow> nat \<Rightarrow> real" where
  "spec_balance_after_periods p 0 = p"
| "spec_balance_after_periods p (Suc k) = spec_balance_after_periods (spec_compounded p) k"

definition spec_periods_crossed :: "datetime \<Rightarrow> datetime \<Rightarrow> nat" where
  "spec_periods_crossed t now = Suc (nat ((now - t) div COMPOUND_INTERVAL))"

primrec spec_growth_events :: "nat \<Rightarrow> nat \<Rightarrow> datetime \<Rightarrow> real \<Rightarrow> nat \<Rightarrow> balance_event list" where
  "spec_growth_events i n t p 0 = []"
| "spec_growth_events i n t p (Suc k) =
     \<lparr>ev_id = Suc n, ev_customer_id = i, event_type = ''compound_growth'', event_time = t,
      change_amount = spec_compounded p - p, balance_after = spec_compounded p\<rparr>
     # spec_growth_events i (Suc n) (t + COMPOUND_INTERVAL) (spec_compounded p) k"

section \<open>Errors\<close>

text \<open>
  Every \<open>raise HTTPException\<close> of the business logic is one constructor. The two the
  loan balance guard raises are what the specification calls
  \<open>InsufficientLoanBalance\<close>; the second one carries the amount still allowed.
  \<open>ValidationError\<close> and \<open>IntegrityError\<close> stand for a request the schema
  validators or the store's primary-key constraint turn down before the business logic
  runs.
\<close>

datatype error =
    CustomerNotFound
  | LoanNotFound
  | RepaymentNotFound
  | NoFieldsToUpdate
  | LoanNotOfCustomer
  | LoanCodeRequired
  | LoanBalanceZeroNoAdjust
  | LoanBalanceExhausted
  | LoanBalanceExceeded real
  | AmountMustNotBeZero
  | ValidationError
  | IntegrityError

fun is_InsufficientLoanBalance :: "error \<Rightarrow> bool" where
  "is_InsufficientLoanBalance LoanBalanceExhausted = True"
| "is_InsufficientLoanBalance (LoanBalanceExceeded allowed) = True"
| "is_InsufficientLoanBalance e = False"

section \<open>Bank transaction ledger\<close>

text \<open>
  \<open>_latest_bank_transaction\<close> selects the row with the greatest primary key. The
  ledger is only ever appended to, so a new row gets the row count plus one as its key.
\<close>

fun greatest_key_row :: "bank_transaction list \<Rightarrow> bank_transaction option" where
  "greatest_key_row [] = None"
| "greatest_key_row (r # rs) =
     (case greatest_key_row rs of
        None \<Rightarrow> Some r
      | Some m \<Rightarrow> if bt_id m < bt_id r then Some r else Some m)"

definition latest_bank_transaction :: "session \<Rightarrow> bank_transaction option" where
  "latest_bank_transaction s = greatest_key_row (bank_transactions s)"

definition get_bank_balance :: "session \<Rightarrow> real" where
  "get_bank_balance s =
     (case latest_bank_transaction s of
        None \<Rightarrow> 0
      | Some latest \<Rightarrow> round_amount (bt_balance_after latest))"

definition record_bank_transaction ::
  "session \<Rightarrow> string \<Rightarrow> real \<Rightarrow> string option \<Rightarrow> nat option \<Rightarrow> nat option \<Rightarrow>
   session \<times> bank_transaction option" where
  "record_bank_transaction s ttype amt ref_type ref_id cust_id =
     (let normalized_amount = round_amount amt
      in if \<bar>normalized_amount\<bar> \<le> tol9 then (s, None)
         else
           let current_balance = get_bank_balance s;
               new_balance = round_amount (current_balance + normalized_amount);
               entry = \<lparr>bt_id = Suc (length (bank_transactions s)), transaction_type = ttype,
                        amount = normalized_amount, bt_balance_after = new_balance,
                        reference_type = ref_type, reference_id = ref_id,
                        bt_customer_id = cust_id\<rparr>
           in (s\<lparr>bank_transactions := bank_transactions s @ [entry]\<rparr>, Some entry))"

text \<open>
  A ledger is in order when its keys grow along the rows and stay within the row count,
  every amount is a non-zero number of cents and every running balance is the sum of the
  amounts up to its row.
\<close>

definition ledger_ok :: "bank_transaction list \<Rightarrow> bool" where
  "ledger_ok rows \<longleftrightarrow>
     sorted_wrt (<) (map bt_id rows) \<and> (\<forall>r \<in> set rows. bt_id r \<le> length rows) \<and>
     (\<forall>r \<in> set rows. is_money (amount r) \<and> amount r \<noteq> 0) \<and>
     (\<forall>n < length rows. bt_balance_after (rows ! n) = sum_list (map amount (take (Suc n) rows)))"

text \<open>A sequence of appends, each with the arguments of one call.\<close>

record bank_append =
  ba_type :: string
  ba_amount :: real
  ba_reference_type :: "string option"
  ba_reference_id :: "nat option"
  ba_customer_id :: "nat option"

fun append_all :: "session \<Rightarrow> bank_append list \<Rightarrow> session" where
  "append_all s [] = s"
| "append_all s (a # as) =
     append_all
       (fst (record_bank_transaction s (ba_type a) (ba_amount a) (ba_reference_type a)
               (ba_reference_id a) (ba_customer_id a)))
       as"

section \<open>Loan balance guard\<close>

definition initial_compounded_amount :: "real \<Rightarrow> real" where
  "initial_compounded_amount amt =
     (let base = max amt 0;
          compounded = base * (1 + COMPOUND_INTEREST_RATE)
      in round2 compounded)"

text \<open>
  The query of \<open>_loan_remaining_compounded_balance\<close> sums the absolute amounts of the
  repayments recorded against the loan, leaving one out when asked to.
\<close>

definition loan_remaining_compounded_balance :: "session \<Rightarrow> loan \<Rightarrow> nat option \<Rightarrow> real" where
  "loan_remaining_compounded_balance s loan_ref exclude_repayment_id =
     (let base_amount = initial_compounded_amount (loan_amount loan_ref);
          rows = filter (\<lambda>r. rep_loan_id r = loan_id loan_ref) (repayments s);
          rows = (case exclude_repayment_id of
                    None \<Rightarrow> rows
                  | Some x \<Rightarrow> filter (\<lambda>r. rep_id r \<noteq> Some x) rows);
          paid_total = sum_list (map (\<lambda>r. \<bar>repayment_amount r\<bar>) rows);
          remaining = base_amount - paid_total
      in max (round_amount remaining) 0)"

text \<open>
  The guard reads the session and either raises or returns; the session it hands back is
  the one the caller goes on with.
\<close>

definition ensure_repayment_within_loan_balance ::
  "session \<Rightarrow> loan \<Rightarrow> real \<Rightarrow> nat option \<Rightarrow> error + session" where
  "ensure_repayment_within_loan_balance s loan_ref amt exclude_repayment_id =
     (let normalized_amount = max (round_amount \<bar>amt\<bar>) 0;
          allowed = loan_remaining_compounded_balance s loan_ref exclude_repayment_id
      in if allowed \<le> 0 \<and> 0 < normalized_amount then Inl LoanBalanceExhausted
         else if tol9 < normalized_amount - allowed then Inl (LoanBalanceExceeded allowed)
         else Inr s)"

text \<open>
  The guard as the specification words it: the remaining balance is the compounded loan
  amount less the absolute repayments, floored at zero, and the proposed amount is
  compared as it is given.
\<close>

definition spec_remaining_balance :: "session \<Rightarrow> loan \<Rightarrow> nat option \<Rightarrow> real" where
  "spec_remaining_balance s loan_ref exclude_repayment_id =
     max 0 (spec_compounded (loan_amount loan_ref) -
       sum_list (map (\<lambda>r. \<bar>repayment_amount r\<bar>)
         (filter (\<lambda>r. rep_loan_id r = loan_id loan_ref \<and>
                       (case exclude_repayment_id of None \<Rightarrow> True | Some x \<Rightarrow> rep_id r \<noteq> Some x))
            (repayments s))))"

definition spec_guard_raises :: "session \<Rightarrow> loan \<Rightarrow> real \<Rightarrow> nat option \<Rightarrow> bool" where
  "spec_guard_raises s loan_ref proposed exclude_repayment_id =
     (let remaining = spec_remaining_balance s loan_ref exclude_repayment_id
      in (remaining \<le> 0 \<and> 0 < proposed) \<or> tol9 < proposed - remaining)"

section \<open>Reading and writing rows\<close>

text \<open>
  \<open>session.get\<close> finds a row by its primary key. \<open>session.add\<close> followed by a
  flush writes an object the session already holds back to its row, and gives a new
  object the next key of its table: one more than the greatest key in use. An
  \<open>Optional[int]\<close> is true in a condition when it is neither \<open>None\<close> nor zero.
\<close>

definition truthy :: "nat option \<Rightarrow> bool" where
  "truthy k = (case k of None \<Rightarrow> False | Some i \<Rightarrow> i \<noteq> 0)"

definition next_key :: "nat option list \<Rightarrow> nat" where
  "next_key ks = Suc (fold (\<lambda>k m. case k of None \<Rightarrow> m | Some i \<Rightarrow> max i m) ks 0)"

definition find_customer :: "session \<Rightarrow> nat \<Rightarrow> customer option" where
  "find_customer s cid = find (\<lambda>c. c_id c = Some cid) (customers s)"

definition find_loan :: "session \<Rightarrow> nat \<Rightarrow> loan option" where
  "find_loan s lid = find (\<lambda>l. loan_id l = Some lid) (loans s)"

definition find_repayment :: "session \<Rightarrow> nat \<Rightarrow> repayment option" where
  "find_repayment s rid = find (\<lambda>r. rep_id r = Some rid) (repayments s)"

definition save_customer :: "session \<Rightarrow> customer \<Rightarrow> session" where
  "save_customer s customer =
     s\<lparr>customers := map (\<lambda>c. if c_id c = c_id customer then customer else c) (customers s)\<rparr>"

definition save_loan :: "session \<Rightarrow> loan \<Rightarrow> session" where
  "save_loan s l = s\<lparr>loans := map (\<lambda>x. if loan_id x = loan_id l then l else x) (loans s)\<rparr>"

definition save_repayment :: "session \<Rightarrow> repayment \<Rightarrow> session" where
  "save_repayment s r =
     s\<lparr>repayments := map (\<lambda>x. if rep_id x = rep_id r then r else x) (repayments s)\<rparr>"

definition insert_loan :: "session \<Rightarrow> loan \<Rightarrow> loan \<times> session" where
  "insert_loan s l =
     (let l = (case loan_id l of
                 None \<Rightarrow> l\<lparr>loan_id := Some (next_key (map loan_id (loans s)))\<rparr>
               | Some k \<Rightarrow> l)
      in (l, s\<lparr>loans := loans s @ [l]\<rparr>))"

definition insert_repayment :: "session \<Rightarrow> repayment \<Rightarrow> repayment \<times> session" where
  "insert_repayment s r =
     (let r = (case rep_id r of
                 None \<Rightarrow> r\<lparr>rep_id := Some (next_key (map rep_id (repayments s)))\<rparr>
               | Some k \<Rightarrow> r)
      in (r, s\<lparr>repayments := repayments s @ [r]\<rparr>))"

text \<open>
  A call of the calculator with a session returns with that session; this picks it out
  of the optional result.
\<close>

definition session_after :: "session option \<Rightarrow> session \<Rightarrow> session" where
  "session_after so s = (case so of None \<Rightarrow> s | Some s' \<Rightarrow> s')"

definition get_customer :: "session \<Rightarrow> nat \<Rightarrow> error + customer" where
  "get_customer s customer_id =
     (case find_customer s customer_id of
        None \<Rightarrow> Inl CustomerNotFound
      | Some customer \<Rightarrow> Inr customer)"

text \<open>
  \<open>get_loan_by_code\<close> strips and upper-cases the code before it looks it up. The
  payload validators have done the same before the business logic is called, so the
  model looks up the code as it comes.
\<close>

definition get_loan_by_code :: "session \<Rightarrow> string \<Rightarrow> error + loan" where
  "get_loan_by_code s code =
     (if code = [] then Inl LoanCodeRequired
      else case find (\<lambda>l. loan_code l = code) (loans s) of
             None \<Rightarrow> Inl LoanNotFound
           | Some l \<Rightarrow> Inr l)"

section \<open>Customers\<close>

text \<open>
  \<open>create_customer\<close> as the API calls it: the payload has no balance fields, so the
  new row starts with the column defaults. The payload may ask for a primary key, which
  the validator wants positive and the store wants unused.
\<close>

definition create_customer :: "session \<Rightarrow> nat option \<Rightarrow> error + session" where
  "create_customer s requested_id =
     (case requested_id of
        None \<Rightarrow>
          Inr (s\<lparr>customers := customers s @
                 [\<lparr>c_id = Some (next_key (map c_id (customers s))), projected_balance = 0,
                   last_principal = 0, next_compound_at = None\<rparr>]\<rparr>)
      | Some k \<Rightarrow>
          if k = 0 then Inl ValidationError
          else if find_customer s k \<noteq> None then Inl IntegrityError
          else
            Inr (s\<lparr>customers := customers s @
                   [\<lparr>c_id = Some k, projected_balance = 0, last_principal = 0,
                     next_compound_at = None\<rparr>]\<rparr>))"

record customer_balance_update =
  cbu_loan_code :: "string option"
  cbu_loan_id :: "nat option"
  cbu_projected_balance :: "real option"
  cbu_adjust_amount :: real
  cbu_next_compound_at :: "datetime option"

definition update_customer_balance ::
  "session \<Rightarrow> datetime \<Rightarrow> nat \<Rightarrow> customer_balance_update \<Rightarrow> error + session" where
  "update_customer_balance s now customer_id payload =
     (case get_customer s customer_id of
        Inl e \<Rightarrow> Inl e
      | Inr customer \<Rightarrow>
          let adjust_value = cbu_adjust_amount payload;
              requires_loan = (cbu_projected_balance payload \<noteq> None \<or> tol9 < \<bar>adjust_value\<bar>);
              loan_lookup =
                (case cbu_loan_id payload of
                   Some lid \<Rightarrow>
                     (case find_loan s lid of
                        None \<Rightarrow> Inl LoanNotFound
                      | Some l \<Rightarrow> Inr (Some l))
                 | None \<Rightarrow>
                     (case cbu_loan_code payload of
                        None \<Rightarrow> Inr None
                      | Some code \<Rightarrow>
                          if code = [] then Inr None
                          else (case get_loan_by_code s code of
                                  Inl e \<Rightarrow> Inl e
                                | Inr l \<Rightarrow> Inr (Some l))))
          in case loan_lookup of
               Inl e \<Rightarrow> Inl e
             | Inr loan_ref \<Rightarrow>
                 if (case loan_ref of
                       None \<Rightarrow> False
                     | Some l \<Rightarrow> Some (loan_customer_id l) \<noteq> c_id customer)
                 then Inl LoanNotOfCustomer
                 else if requires_loan \<and> loan_ref = None then Inl LoanCodeRequired
                 else if requires_loan \<and>
                         (case loan_ref of
                            None \<Rightarrow> False
                          | Some l \<Rightarrow> loan_remaining_compounded_balance s l None \<le> 0)
                 then Inl LoanBalanceZeroNoAdjust
                 else
                   let (s, customer) =
                         (case cbu_projected_balance payload of
                            Some pb \<Rightarrow>
                              let target = max pb 0;
                                  delta = target - projected_balance customer
                              in if tol9 < \<bar>delta\<bar> then
                                   let (updated, customer, so) =
                                         adjust_projected_balance customer delta now (Some s);
                                       s = session_after so s;
                                       s = record_balance_event s customer
                                             ''manual_override'' delta now
                                   in (s, customer)
                                 else (s, customer)
                          | None \<Rightarrow>
                              if tol9 < \<bar>adjust_value\<bar> then
                                let (updated, customer, so) =
                                      adjust_projected_balance customer adjust_value now (Some s);
                                    s = session_after so s;
                                    s = record_balance_event s customer
                                          ''manual_adjust'' adjust_value now
                                in (s, customer)
                              else (s, customer));
                       customer =
                         (case cbu_next_compound_at payload of
                            None \<Rightarrow> customer
                          | Some t \<Rightarrow>
                              customer\<lparr>next_compound_at := ensure_myt_datetime (Some t)\<rparr>)
                   in Inr (save_customer s customer))"

section \<open>Loans\<close>

text \<open>
  \<open>create_loan\<close>: a loan that comes without a business code gets a generated one;
  the generator draws it at random, so the model takes the drawn code as an argument.
  A stored loan therefore has a code, and \<open>_ensure_loan_code\<close>, which the other
  operations call for their log lines, finds it and writes nothing.
\<close>

definition create_loan :: "session \<Rightarrow> datetime \<Rightarrow> string \<Rightarrow> loan \<Rightarrow> error + session" where
  "create_loan s now generated_code l =
     (case get_customer s (loan_customer_id l) of
        Inl e \<Rightarrow> Inl e
      | Inr customer \<Rightarrow>
          let l = l\<lparr>loan_code := (if loan_code l = [] then generated_code else loan_code l)\<rparr>;
              addition = initial_compounded_amount (loan_amount l);
              (updated, customer, so) = adjust_projected_balance customer addition now (Some s);
              s = session_after so s;
              customer = customer\<lparr>last_principal := last_principal customer + addition\<rparr>;
              s = save_customer s customer;
              (l, s) = insert_loan s l;
              s = record_balance_event s customer ''loan_disbursement'' addition (loan_date l);
              (s, entry) = record_bank_transaction s ''loan_disbursement''
                             (- round_amount (loan_amount l)) (Some ''loan'') (loan_id l)
                             (Some (loan_customer_id l))
          in Inr s)"

record loan_update =
  lu_loan_amount :: "real option"
  lu_loan_date :: "datetime option"
  lu_other_fields :: bool

definition update_loan :: "session \<Rightarrow> datetime \<Rightarrow> nat \<Rightarrow> loan_update \<Rightarrow> error + session" where
  "update_loan s now lid payload =
     (case find_loan s lid of
        None \<Rightarrow> Inl LoanNotFound
      | Some l \<Rightarrow>
          if lu_loan_amount payload = None \<and> lu_loan_date payload = None \<and>
             \<not> lu_other_fields payload
          then Inl NoFieldsToUpdate
          else case get_customer s (loan_customer_id l) of
            Inl e \<Rightarrow> Inl e
          | Inr customer \<Rightarrow>
              let previous_cash_amount = loan_amount l;
                  (s, customer, l) =
                    (case lu_loan_amount payload of
                       None \<Rightarrow> (s, customer, l)
                     | Some new_amount \<Rightarrow>
                         let old_effect = initial_compounded_amount (loan_amount l);
                             new_effect = initial_compounded_amount new_amount;
                             delta = new_effect - old_effect;
                             (s, customer) =
                               (if tol9 < \<bar>delta\<bar> then
                                  let (updated, customer, so) =
                                        adjust_projected_balance customer delta now (Some s);
                                      s = session_after so s;
                                      customer = customer
                                        \<lparr>last_principal := last_principal customer + delta\<rparr>;
                                      s = record_balance_event s customer
                                            ''loan_adjustment'' delta now
                                  in (s, customer)
                                else (s, customer));
                             l = l\<lparr>loan_amount := new_amount\<rparr>;
                             cash_delta = new_amount - previous_cash_amount;
                             s = (if tol9 < \<bar>cash_delta\<bar> then
                                    fst (record_bank_transaction s ''loan_adjustment''
                                           (- round_amount cash_delta) (Some ''loan'')
                                           (loan_id l) (Some (loan_customer_id l)))
                                  else s)
                         in (s, customer, l));
                  l = (case lu_loan_date payload of
                         None \<Rightarrow> l
                       | Some d \<Rightarrow> l\<lparr>loan_date := d\<rparr>);
                  s = save_customer s customer;
                  s = save_loan s l
              in Inr s)"

definition delete_loan :: "session \<Rightarrow> datetime \<Rightarrow> nat \<Rightarrow> error + session" where
  "delete_loan s now lid =
     (case find_loan s lid of
        None \<Rightarrow> Inl LoanNotFound
      | Some l \<Rightarrow>
          case get_customer s (loan_customer_id l) of
            Inl e \<Rightarrow> Inl e
          | Inr customer \<Rightarrow>
              let deduction = - initial_compounded_amount (loan_amount l);
                  (updated, customer, so) =
                    adjust_projected_balance customer deduction now (Some s);
                  s = session_after so s;
                  customer = customer\<lparr>last_principal := last_principal customer + deduction\<rparr>;
                  s = save_customer s customer;
                  s = record_balance_event s customer ''loan_writeoff'' deduction now;
                  (s, entry) = record_bank_transaction s ''loan_reversal''
                                 (round_amount \<bar>loan_amount l\<bar>) (Some ''loan'') (loan_id l)
                                 (Some (loan_customer_id l));
                  s = s\<lparr>loans := filter (\<lambda>x. loan_id x \<noteq> loan_id l) (loans s)\<rparr>
              in Inr s)"

section \<open>Repayments\<close>

definition create_repayment :: "session \<Rightarrow> datetime \<Rightarrow> repayment \<Rightarrow> error + session" where
  "create_repayment s now r =
     (case get_customer s (rep_customer_id r) of
        Inl e \<Rightarrow> Inl e
      | Inr customer \<Rightarrow>
          let loan_ref = (case rep_loan_id r of
                            None \<Rightarrow> None
                          | Some k \<Rightarrow> if k = 0 then None else find_loan s k)
          in if truthy (rep_loan_id r) \<and> loan_ref = None then Inl LoanNotFound
             else
               case (case loan_ref of
                       None \<Rightarrow> Inr s
                     | Some l \<Rightarrow>
                         ensure_repayment_within_loan_balance s l (repayment_amount r) None) of
                 Inl e \<Rightarrow> Inl e
               | Inr s \<Rightarrow>
                   let deduction = - \<bar>repayment_amount r\<bar>;
                       (updated, customer, so) = apply_compound_growth customer now (Some s);
                       s = session_after so s;
                       (updated, customer, so) =
                         adjust_projected_balance customer deduction now (Some s);
                       s = session_after so s;
                       customer = customer
                         \<lparr>last_principal := last_principal customer + deduction\<rparr>;
                       s = save_customer s customer;
                       (r, s) = insert_repayment s r;
                       s = record_balance_event s customer ''repayment'' deduction
                             (repayment_date r);
                       (s, entry) = record_bank_transaction s ''repayment_receipt''
                                      (round_amount \<bar>repayment_amount r\<bar>) (Some ''repayment'')
                                      (rep_id r) (Some (rep_customer_id r))
                   in Inr s)"

record repayment_update =
  ru_repayment_amount :: "real option"
  ru_repayment_date :: "datetime option"
  ru_other_fields :: bool

text \<open>\<open>math.isclose(a, b, abs_tol=1e-9)\<close>, whose relative tolerance defaults to 1e-9.\<close>

definition isclose :: "real \<Rightarrow> real \<Rightarrow> bool" where
  "isclose a b \<longleftrightarrow> \<bar>a - b\<bar> \<le> max (tol9 * max \<bar>a\<bar> \<bar>b\<bar>) tol9"

definition update_repayment ::
  "session \<Rightarrow> datetime \<Rightarrow> nat \<Rightarrow> repayment_update \<Rightarrow> error + session" where
  "update_repayment s now rid payload =
     (case find_repayment s rid of
        None \<Rightarrow> Inl RepaymentNotFound
      | Some r \<Rightarrow>
          if ru_repayment_amount payload = None \<and> ru_repayment_date payload = None \<and>
             \<not> ru_other_fields payload
          then Inl NoFieldsToUpdate
          else case get_customer s (rep_customer_id r) of
            Inl e \<Rightarrow> Inl e
          | Inr customer \<Rightarrow>
              let loan_ref = (case rep_loan_id r of
                                None \<Rightarrow> None
                              | Some k \<Rightarrow> if k = 0 then None else find_loan s k)
              in if truthy (rep_loan_id r) \<and> loan_ref = None then Inl LoanNotFound
                 else
                   case (case ru_repayment_amount payload of
                           None \<Rightarrow> Inr s
                         | Some a \<Rightarrow>
                             (case loan_ref of
                                None \<Rightarrow> Inr s
                              | Some l \<Rightarrow>
                                  if \<not> isclose \<bar>a\<bar> \<bar>repayment_amount r\<bar>
                                  then ensure_repayment_within_loan_balance s l \<bar>a\<bar> (rep_id r)
                                  else Inr s)) of
                     Inl e \<Rightarrow> Inl e
                   | Inr s \<Rightarrow>
                       let previous_cash_amount = repayment_amount r;
                           (s, customer, r) =
                             (case ru_repayment_amount payload of
                                None \<Rightarrow> (s, customer, r)
                              | Some a \<Rightarrow>
                                  let new_amount = \<bar>a\<bar>;
                                      old_amount = \<bar>repayment_amount r\<bar>;
                                      delta = - new_amount - (- old_amount);
                                      (s, customer) =
                                        (if tol9 < \<bar>delta\<bar> then
                                           let (updated, customer, so) =
                                                 adjust_projected_balance customer delta now
                                                   (Some s);
                                               s = session_after so s;
                                               customer = customer
                                                 \<lparr>last_principal :=
                                                    last_principal customer + delta\<rparr>;
                                               s = record_balance_event s customer
                                                     ''repayment_adjustment'' delta now
                                           in (s, customer)
                                         else (s, customer));
                                      r = r\<lparr>repayment_amount := new_amount\<rparr>;
                                      cash_delta = new_amount - previous_cash_amount;
                                      s = (if tol9 < \<bar>cash_delta\<bar> then
                                             fst (record_bank_transaction s
                                                    ''repayment_adjustment''
                                                    (round_amount cash_delta)
                                                    (Some ''repayment'') (rep_id r)
                                                    (Some (rep_customer_id r)))
                                           else s)
                                  in (s, customer, r));
                           r = (case ru_repayment_date payload of
                                  None \<Rightarrow> r
                                | Some d \<Rightarrow> r\<lparr>repayment_date := d\<rparr>);
                           s = save_customer s customer;
                           s = save_repayment s r
                       in Inr s)"

definition delete_repayment :: "session \<Rightarrow> datetime \<Rightarrow> nat \<Rightarrow> error + session" where
  "delete_repayment s now rid =
     (case find_repayment s rid of
        None \<Rightarrow> Inl RepaymentNotFound
      | Some r \<Rightarrow>
          case get_customer s (rep_customer_id r) of
            Inl e \<Rightarrow> Inl e
          | Inr customer \<Rightarrow>
              let addition = \<bar>repayment_amount r\<bar>;
                  (updated, customer, so) =
                    adjust_projected_balance customer addition now (Some s);
                  s = session_after so s;
                  customer = customer\<lparr>last_principal := last_principal customer + addition\<rparr>;
                  s = save_customer s customer;
                  s = record_balance_event s customer ''repayment_reversal'' addition now;
                  (s, entry) = record_bank_transaction s ''repayment_reversal''
                                 (- round_amount \<bar>repayment_amount r\<bar>) (Some ''repayment'')
                                 (rep_id r) (Some (rep_customer_id r));
                  s = s\<lparr>repayments := filter (\<lambda>x. rep_id x \<noteq> rep_id r) (repayments s)\<rparr>
              in Inr s)"

section \<open>Manual ledger adjustment\<close>

datatype direction = Deposit | Withdrawal

definition create_manual_bank_adjustment ::
  "session \<Rightarrow> real \<Rightarrow> direction \<Rightarrow> error + session" where
  "create_manual_bank_adjustment s amt dir =
     (let signed_amount = round_amount (if dir = Deposit then amt else - amt);
          (s, entry) = record_bank_transaction s
                         (if dir = Deposit then ''manual_deposit'' else ''manual_withdrawal'')
                         signed_amount None None None
      in if entry = None then Inl AmountMustNotBeZero else Inr s)"

section \<open>Summary read\<close>

text \<open>
  \<open>get_summary\<close> walks over the customers, newest first, recomputes each one's net
  principal from the loan and repayment rows and hands it to
  \<open>_refresh_compounded_balance\<close>; a customer that was updated is written back.
\<close>

definition summary_customer :: "datetime \<Rightarrow> customer \<Rightarrow> session \<Rightarrow> session" where
  "summary_customer now customer s =
     (let total_loan = filter (\<lambda>l. Some (loan_customer_id l) = c_id customer) (loans s);
          total_repayment =
            filter (\<lambda>r. Some (rep_customer_id r) = c_id customer) (repayments s);
          repayment_sum = sum_list (map repayment_amount total_repayment);
          effective_loan_total =
            sum_list (map (\<lambda>l. initial_compounded_amount (loan_amount l)) total_loan);
          balance_raw = effective_loan_total - repayment_sum;
          ((projected, nca, updated), customer, so) =
            refresh_compounded_balance customer balance_raw now (Some s);
          s = session_after so s
      in if updated then save_customer s customer else s)"

definition get_summary :: "session \<Rightarrow> datetime \<Rightarrow> session" where
  "get_summary s now = fold (summary_customer now) (rev (customers s)) s"

section \<open>The operations as a state machine\<close>

text \<open>
  One constructor per operation on the store. \<open>Advance\<close> and \<open>ApplyDelta\<close> are
  the calculator's two entry points applied to a stored customer. Each step is taken at
  a wall-clock instant. An operation that raises leaves the store as it was: every
  \<open>raise\<close> of the operations above comes before the first write.
\<close>

definition advance_customer :: "session \<Rightarrow> datetime \<Rightarrow> nat \<Rightarrow> error + session" where
  "advance_customer s now customer_id =
     (case get_customer s customer_id of
        Inl e \<Rightarrow> Inl e
      | Inr customer \<Rightarrow>
          let (updated, customer, so) = apply_compound_growth customer now (Some s);
              s = session_after so s
          in Inr (save_customer s customer))"

definition apply_delta_customer ::
  "session \<Rightarrow> datetime \<Rightarrow> nat \<Rightarrow> real \<Rightarrow> error + session" where
  "apply_delta_customer s now customer_id delta =
     (case get_customer s customer_id of
        Inl e \<Rightarrow> Inl e
      | Inr customer \<Rightarrow>
          let (updated, customer, so) = adjust_projected_balance customer delta now (Some s);
              s = session_after so s
          in Inr (save_customer s customer))"

datatype op =
    CreateCustomer "nat option"
  | UpdateCustomerBalance nat customer_balance_update
  | CreateLoan string loan
  | UpdateLoan nat loan_update
  | DeleteLoan nat
  | CreateRepayment repayment
  | UpdateRepayment nat repayment_update
  | DeleteRepayment nat
  | ManualBankAdjustment real direction
  | Advance nat
  | ApplyDelta nat real
  | GetSummary

fun step :: "session \<Rightarrow> datetime \<Rightarrow> op \<Rightarrow> error + session" where
  "step s now (CreateCustomer k) = create_customer s k"
| "step s now (UpdateCustomerBalance cid payload) = update_customer_balance s now cid payload"
| "step s now (CreateLoan code l) = create_loan s now code l"
| "step s now (UpdateLoan lid payload) = update_loan s now lid payload"
| "step s now (DeleteLoan lid) = delete_loan s now lid"
| "step s now (CreateRepayment r) = create_repayment s now r"
| "step s now (UpdateRepayment rid payload) = update_repayment s now rid payload"
| "step s now (DeleteRepayment rid) = delete_repayment s now rid"
| "step s now (ManualBankAdjustment amt dir) = create_manual_bank_adjustment s amt dir"
| "step s now (Advance cid) = advance_customer s now cid"
| "step s now (ApplyDelta cid delta) = apply_delta_customer s now cid delta"
| "step s now GetSummary = Inr (get_summary s now)"

fun run :: "session \<Rightarrow> (datetime \<times> op) list \<Rightarrow> session" where
  "run s [] = s"
| "run s ((now, x) # xs) =
     (case step s now x of
        Inl e \<Rightarrow> run s xs
      | Inr s' \<Rightarrow> run s' xs)"


fun sets_next_compound_at :: "op \<Rightarrow> bool" where
  "sets_next_compound_at (UpdateCustomerBalance cid payload) =
     (cbu_next_compound_at payload \<noteq> None)"
| "sets_next_compound_at x = False"

section \<open>The balance timeline\<close>





fun chain_from :: "real \<Rightarrow> balance_event list \<Rightarrow> bool" where
  "chain_from b [] = True"
| "chain_from b (e # es) =
     (\<bar>balance_after e - max 0 (b + change_amount e)\<bar> \<le> 1 / 100 \<and>
      chain_from (balance_after e) es)"

fun last_balance :: "real \<Rightarrow> balance_event list \<Rightarrow> real" where
  "last_balance b [] = b"
| "last_balance b (e # es) = last_balance (balance_after e) es"

section \<open>Consistency auditor\<close>

text \<open>
  \<open>run_audit\<close> over the columns modelled here: the balance and event checks of each
  customer, then the reference and amount checks of each loan and each repayment. The
  checks for missing and duplicated business codes are left out with the code columns.
\<close>

datatype detail = Amount real | Key "nat option"

record audit_issue =
  severity :: string
  category :: string
  entity :: string
  entity_id :: "nat option"
  message :: string
  details :: "(string \<times> detail) list"

record audit_report =
  stats :: "(string \<times> nat) list"
  issues :: "audit_issue list"

definition audit_customer :: "real \<Rightarrow> session \<Rightarrow> customer \<Rightarrow> audit_issue list" where
  "audit_customer tolerance s customer =
     (let loan_rows = filter (\<lambda>l. Some (loan_customer_id l) = c_id customer) (loans s);
          repayment_rows =
            filter (\<lambda>r. Some (rep_customer_id r) = c_id customer) (repayments s);
          effective_loan_total =
            sum_list (map (\<lambda>l. initial_compounded_amount (max (loan_amount l) 0)) loan_rows);
          repayment_total = sum_list (map (\<lambda>r. max (repayment_amount r) 0) repayment_rows);
          raw_balance = round2 (max (effective_loan_total - repayment_total) 0);
          last_principal = round2 (last_principal customer);
          issues1 =
            (if tolerance < \<bar>last_principal - raw_balance\<bar> then
               [\<lparr>severity = ''warning'', category = ''customer_balance'', entity = ''customer'',
                 entity_id = c_id customer,
                 message = ''last_principal deviates from recomputed balance'',
                 details = [(''expected'', Amount raw_balance),
                            (''actual'', Amount last_principal)]\<rparr>]
             else []);
          projected = round2 (max (projected_balance customer) 0);
          issues2 =
            (if projected < - tolerance then
               [\<lparr>severity = ''error'', category = ''customer_balance'', entity = ''customer'',
                 entity_id = c_id customer, message = ''projected_balance is negative'',
                 details = [(''value'', Amount projected)]\<rparr>]
             else []);
          event_rows =
            sort_key (\<lambda>e. (event_time e, ev_id e))
              (filter (\<lambda>e. Some (ev_customer_id e) = c_id customer) (balance_events s));
          issues3 =
            (if event_rows \<noteq> [] then
               (let final_balance = round2 (balance_after (last event_rows))
                in (if tolerance < \<bar>final_balance - projected\<bar> then
                      [\<lparr>severity = ''warning'', category = ''balance_events'',
                        entity = ''customer'', entity_id = c_id customer,
                        message = ''latest balance event drift from projected_balance'',
                        details = [(''event_balance'', Amount final_balance),
                                   (''projected_balance'', Amount projected)]\<rparr>]
                    else []) @
                   concat (map (\<lambda>entry.
                     if balance_after entry < - tolerance then
                       [\<lparr>severity = ''error'', category = ''balance_events'',
                         entity = ''customer'', entity_id = c_id customer,
                         message = ''balance event recorded negative balance'',
                         details = [(''event_id'', Key (Some (ev_id entry))),
                                    (''balance_after'', Amount (balance_after entry))]\<rparr>]
                     else []) event_rows))
             else [])
      in issues1 @ issues2 @ issues3)"

definition audit_loan :: "session \<Rightarrow> loan \<Rightarrow> audit_issue list" where
  "audit_loan s l =
     (if Some (loan_customer_id l) \<notin> set (map c_id (customers s)) then
        [\<lparr>severity = ''error'', category = ''loan_reference'', entity = ''loan'',
          entity_id = loan_id l,
          message = ''customer_id does not point to an existing customer'',
          details = [(''customer_id'', Key (Some (loan_customer_id l)))]\<rparr>]
      else []) @
     (if loan_amount l < 0 then
        [\<lparr>severity = ''error'', category = ''loan_amount'', entity = ''loan'',
          entity_id = loan_id l, message = ''loan_amount cannot be negative'',
          details = [(''loan_amount'', Amount (loan_amount l))]\<rparr>]
      else [])"

definition audit_repayment :: "session \<Rightarrow> repayment \<Rightarrow> audit_issue list" where
  "audit_repayment s r =
     (if repayment_amount r \<le> 0 then
        [\<lparr>severity = ''error'', category = ''repayment_amount'', entity = ''repayment'',
          entity_id = rep_id r, message = ''repayment_amount must be positive'',
          details = [(''repayment_amount'', Amount (repayment_amount r))]\<rparr>]
      else []) @
     (if Some (rep_customer_id r) \<notin> set (map c_id (customers s)) then
        [\<lparr>severity = ''error'', category = ''repayment_reference'', entity = ''repayment'',
          entity_id = rep_id r,
          message = ''customer_id does not point to an existing customer'',
          details = [(''customer_id'', Key (Some (rep_customer_id r)))]\<rparr>]
      else []) @
     (case rep_loan_id r of
        None \<Rightarrow> []
      | Some k \<Rightarrow>
          (case find (\<lambda>l. loan_id l = Some k) (rev (loans s)) of
             None \<Rightarrow>
               [\<lparr>severity = ''error'', category = ''repayment_reference'',
                 entity = ''repayment'', entity_id = rep_id r,
                 message = ''loan_id does not point to an existing loan'',
                 details = [(''loan_id'', Key (Some k))]\<rparr>]
           | Some l \<Rightarrow>
               if loan_customer_id l \<noteq> rep_customer_id r then
                 [\<lparr>severity = ''error'', category = ''repayment_reference'',
                   entity = ''repayment'', entity_id = rep_id r,
                   message = ''repayment loan_id/customer_id mismatch'',
                   details = [(''repayment_customer_id'', Key (Some (rep_customer_id r))),
                              (''loan_customer_id'', Key (Some (loan_customer_id l))),
                              (''loan_id'', Key (loan_id l))]\<rparr>]
               else []))"

definition run_audit :: "session \<Rightarrow> real \<Rightarrow> audit_report" where
  "run_audit s tolerance =
     (let tolerance = max tolerance 0
      in \<lparr>stats = [(''customers'', length (customers s)), (''loans'', length (loans s)),
                   (''repayments'', length (repayments s)),
                   (''balance_events'', length (balance_events s))],
          issues = concat (map (audit_customer tolerance s) (customers s)) @
                   concat (map (audit_loan s) (loans s)) @
                   concat (map (audit_repayment s) (repayments s))\<rparr>)"

section \<open>Invariants of the store\<close>

text \<open>
  A customer's balance state is \<open>scheduled\<close> when the projected balance is a
  non-negative number of cents and the next boundary is absent exactly for a zero
  balance. It is \<open>sane\<close> when the balance is a non-negative number of cents and a
  positive balance has a boundary; this is what survives a boundary set by hand.
\<close>

definition scheduled :: "customer \<Rightarrow> bool" where
  "scheduled c \<longleftrightarrow>
     is_money (projected_balance c) \<and> 0 \<le> projected_balance c \<and>
     (next_compound_at c = None \<longleftrightarrow> projected_balance c = 0)"

definition sane :: "customer \<Rightarrow> bool" where
  "sane c \<longleftrightarrow>
     is_money (projected_balance c) \<and> 0 \<le> projected_balance c \<and>
     (0 < projected_balance c \<longrightarrow> next_compound_at c \<noteq> None)"


text \<open>What one call of the calculator does to a customer and to the event table.\<close>

definition calc_effect :: "customer \<Rightarrow> customer \<Rightarrow> balance_event list \<Rightarrow> bool" where
  "calc_effect c c' new \<longleftrightarrow>
     c_id c' = c_id c \<and> last_principal c' = last_principal c \<and>
     (\<forall>e \<in> set new. Some (ev_customer_id e) = c_id c)"

text \<open>
  The events a call of the calculator appends to the event table, and the event (if any)
  that \<open>_record_balance_event\<close> appends to a table of \<open>n\<close> rows.
\<close>

definition growth_events :: "customer \<Rightarrow> datetime \<Rightarrow> session \<Rightarrow> balance_event list" where
  "growth_events c now s =
     drop (length (balance_events s))
       (balance_events (session_after (snd (snd (apply_compound_growth c now (Some s)))) s))"

definition adjust_events :: "customer \<Rightarrow> real \<Rightarrow> datetime \<Rightarrow> session \<Rightarrow> balance_event list" where
  "adjust_events c d now s =
     drop (length (balance_events s))
       (balance_events (session_after (snd (snd (adjust_projected_balance c d now (Some s)))) s))"

definition recorded ::
  "nat \<Rightarrow> customer \<Rightarrow> string \<Rightarrow> real \<Rightarrow> datetime \<Rightarrow> balance_event list" where
  "recorded n c ty d t =
     (case c_id c of
        None \<Rightarrow> []
      | Some i \<Rightarrow>
          if i = 0 \<or> \<bar>d\<bar> \<le> tol9 then []
          else [\<lparr>ev_id = Suc n, ev_customer_id = i, event_type = ty, event_time = t,
                 change_amount = round2 d,
                 balance_after = round2 (max (projected_balance c) 0)\<rparr>])"

section \<open>Rounding to two decimals\<close>


lemma round_half_even_of_int: "round_half_even (of_int n) = n"
  by (simp add: round_half_even_def)

lemma round_half_even_err: "\<bar>of_int (round_half_even x) - x\<bar> \<le> 1 / 2"
  unfolding round_half_even_def Let_def by (auto; linarith)

lemma round2_err: "\<bar>round2 x - x\<bar> \<le> 1 / 200"
  using round_half_even_err [of "x * 100"] unfolding round2_def by (simp add: field_simps abs_le_iff)

lemma round2_cents: "round2 (of_int n / 100) = of_int n / 100"
  by (simp add: round2_def round_half_even_of_int)

lemma is_money_iff: "is_money x \<longleftrightarrow> (\<exists>n::int. x = of_int n / 100)"
  unfolding is_money_def
proof
  assume "round2 x = x"
  then have "x = of_int (round_half_even (x * 100)) / 100" by (simp add: round2_def)
  then show "\<exists>n::int. x = of_int n / 100" ..
next
  assume "\<exists>n::int. x = of_int n / 100"
  then obtain n :: int where "x = of_int n / 100" by blast
  then show "round2 x = x" by (simp only: round2_cents)
qed

lemma is_money_round2: "is_money (round2 x)"
  unfolding is_money_iff round2_def by blast

lemma is_money_0: "is_money 0"
  unfolding is_money_iff by (rule exI [of _ 0]) simp

lemma is_money_diff: "is_money x \<Longrightarrow> is_money y \<Longrightarrow> is_money (x - y)"
  unfolding is_money_iff
proof -
  assume "\<exists>n::int. x = of_int n / 100" "\<exists>n::int. y = of_int n / 100"
  then obtain a b :: int where "x = of_int a / 100" "y = of_int b / 100" by blast
  then have "x - y = of_int (a - b) / 100" by (simp add: field_simps)
  then show "\<exists>n::int. x - y = of_int n / 100" ..
qed

lemma money_pos_ge: assumes "is_money x" "0 < x" shows "1 / 100 \<le> x"
proof -
  from assms(1) obtain n :: int where n: "x = of_int n / 100" unfolding is_money_iff by blast
  with assms(2) have "0 < n" by simp
  then have "1 \<le> n" by simp
  then have "(1::real) \<le> of_int n" by simp
  with n show ?thesis by simp
qed

lemma money_close_eq: assumes "is_money x" "is_money y" "\<bar>x - y\<bar> \<le> tol9" shows "x = y"
proof (rule ccontr)
  assume ne: "x \<noteq> y"
  have m: "is_money (x - y)" "is_money (y - x)" using assms by (simp_all add: is_money_diff)
  show False
  proof (cases "x < y")
    case True
    then have "1 / 100 \<le> y - x" using money_pos_ge [OF m(2)] by simp
    with assms(3) show False by simp
  next
    case False
    with ne have "1 / 100 \<le> x - y" using money_pos_ge [OF m(1)] by simp
    with assms(3) show False by simp
  qed
qed

lemma round2_nonneg: "0 \<le> x \<Longrightarrow> 0 \<le> round2 x"
  unfolding round2_def round_half_even_def Let_def by (auto simp: zero_le_floor intro: add_nonneg_nonneg) 

lemma grow_lower: "6 * p / 5 - 1 / 200 \<le> round2 (p * (1 + COMPOUND_INTEREST_RATE))"
proof -
  have e: "p * (1 + COMPOUND_INTEREST_RATE) = 6 * p / 5"
    by (simp add: COMPOUND_INTEREST_RATE_def)
  show ?thesis using round2_err [of "6 * p / 5"] unfolding e by linarith
qed

lemma grow_ge_cent:
  assumes "1 / 100 \<le> p" shows "1 / 100 \<le> round2 (p * (1 + COMPOUND_INTEREST_RATE))"
proof -
  have "0 < round2 (p * (1 + COMPOUND_INTEREST_RATE))"
    using grow_lower [of p] assms by linarith
  with is_money_round2 show ?thesis by (rule money_pos_ge)
qed

lemma grow_gt:
  assumes "3 / 100 \<le> p" shows "p + 1 / 1000 \<le> round2 (p * (1 + COMPOUND_INTEREST_RATE))"
  using grow_lower [of p] assms by linarith

lemma grow_increment:
  assumes "3 / 100 \<le> p" shows "tol9 < round2 (p * (1 + COMPOUND_INTEREST_RATE)) - p"
proof -
  have "tol9 < 1 / 1000" by simp
  with grow_gt [OF assms] show ?thesis by linarith
qed

section \<open>Properties of the calculator\<close>


lemma compound_loop_stop: "now < t \<Longrightarrow> compound_loop now c sess p t u = (c, sess, p, t, u)"
  by (simp add: compound_loop.simps)

lemma compound_loop_step:
  "t \<le> now \<Longrightarrow>
   compound_loop now c sess p t u =
   compound_loop now
     (c\<lparr>projected_balance := round2 (p * (1 + COMPOUND_INTEREST_RATE)),
        next_compound_at := Some (t + COMPOUND_INTERVAL)\<rparr>)
     (case sess of
        None \<Rightarrow> None
      | Some s \<Rightarrow>
          if tol9 < round2 (p * (1 + COMPOUND_INTEREST_RATE)) - p
          then Some (record_balance_event s
                 (c\<lparr>projected_balance := round2 (p * (1 + COMPOUND_INTEREST_RATE))\<rparr>)
                 ''compound_growth'' (round2 (p * (1 + COMPOUND_INTEREST_RATE)) - p) t)
          else Some s)
     (round2 (p * (1 + COMPOUND_INTEREST_RATE))) (t + COMPOUND_INTERVAL) True"
  by (subst compound_loop.simps) (simp add: Let_def)

lemma compound_loop_post:
  assumes "compound_loop now c sess p t u = (c', sess', p', t', u')"
    and "1 / 100 \<le> p" and "next_compound_at c = Some t" and "projected_balance c = p"
  shows "now < t' \<and> next_compound_at c' = Some t' \<and> projected_balance c' = p' \<and> 1 / 100 \<le> p'"
  using assms
proof (induction now c sess p t u rule: compound_loop.induct)
  case (1 now customer session projected nca updated)
  show ?case
  proof (cases "nca \<le> now")
    case True
    note IH = "1.IH" [OF True refl refl refl refl refl refl refl]
    from "1.prems"(1) have eq: "compound_loop now
       (customer\<lparr>projected_balance := round2 (projected * (1 + COMPOUND_INTEREST_RATE)),
          next_compound_at := Some (nca + COMPOUND_INTERVAL)\<rparr>)
       (case session of
          None \<Rightarrow> None
        | Some s \<Rightarrow>
            if tol9 < round2 (projected * (1 + COMPOUND_INTEREST_RATE)) - projected
            then Some (record_balance_event s
                   (customer\<lparr>projected_balance := round2 (projected * (1 + COMPOUND_INTEREST_RATE))\<rparr>)
                   ''compound_growth'' (round2 (projected * (1 + COMPOUND_INTEREST_RATE)) - projected) nca)
            else Some s)
       (round2 (projected * (1 + COMPOUND_INTEREST_RATE))) (nca + COMPOUND_INTERVAL) True
       = (c', sess', p', t', u')"
      by (simp only: compound_loop_step [OF True])
    show ?thesis
      by (rule IH [OF eq grow_ge_cent [OF "1.prems"(2)]]) simp_all
  next
    case False
    with "1.prems" show ?thesis by (simp add: compound_loop.simps)
  qed
qed

text \<open>
  A second \<open>_apply_compound_growth\<close> with the same \<open>now\<close> is a no-op: it
  reports no update and returns the customer and the session as the first call left
  them. This needs a projected balance that is not strictly between 0 and 0.01, which
  every balance rounded to two decimals satisfies.
\<close>

lemma growth_twice:
  assumes "projected_balance c \<le> 0 \<or> 1 / 100 \<le> projected_balance c"
    and "apply_compound_growth c now sess = (u, c', sess')"
  shows "apply_compound_growth c' now sess' = (False, c', sess')"
proof (cases "projected_balance c \<le> 0")
  case True
  with assms(2) have "projected_balance c' = 0 \<and> next_compound_at c' = None \<and> sess' = sess"
    by (auto simp: apply_compound_growth_def ensure_myt_datetime_def Let_def split: if_splits)
  then show ?thesis
    by (simp add: apply_compound_growth_def ensure_myt_datetime_def)
next
  case False
  with assms(1) have p: "1 / 100 \<le> projected_balance c" by simp
  define t0 where "t0 = (case next_compound_at c of None \<Rightarrow> now + COMPOUND_INTERVAL | Some t \<Rightarrow> t)"
  define c0 where "c0 = (case next_compound_at c of None \<Rightarrow> c\<lparr>next_compound_at := Some (now + COMPOUND_INTERVAL)\<rparr> | Some t \<Rightarrow> c)"
  define u0 where "u0 = (case next_compound_at c of None \<Rightarrow> True | Some t \<Rightarrow> False)"
  obtain c1 s1 p1 t1 u1 where loop:
    "compound_loop now c0 sess (projected_balance c) t0 u0 = (c1, s1, p1, t1, u1)"
    by (metis prod_cases5)
  have c0: "next_compound_at c0 = Some t0" "projected_balance c0 = projected_balance c"
    by (simp_all add: c0_def t0_def split: option.splits)
  from compound_loop_post [OF loop p c0]
  have post: "now < t1" "next_compound_at c1 = Some t1" "projected_balance c1 = p1" "1 / 100 \<le> p1"
    by simp_all
  from assms(2) False p loop post have res: "c' = c1" "sess' = s1"
    by (auto simp: apply_compound_growth_def ensure_myt_datetime_def Let_def max_def
          c0_def t0_def u0_def split: option.splits)
  from post show ?thesis unfolding res
    by (simp add: apply_compound_growth_def ensure_myt_datetime_def Let_def max_def
          compound_loop_stop)
qed

lemma periods_last: "t \<le> now \<Longrightarrow> now < t + COMPOUND_INTERVAL \<Longrightarrow> spec_periods_crossed t now = 1"
  by (simp add: spec_periods_crossed_def COMPOUND_INTERVAL_def)

lemma periods_more:
  assumes "t + COMPOUND_INTERVAL \<le> now"
  shows "spec_periods_crossed t now = Suc (spec_periods_crossed (t + COMPOUND_INTERVAL) now)"
proof -
  have "now - t = (now - (t + COMPOUND_INTERVAL)) + 1 * COMPOUND_INTERVAL" by simp
  then have "(now - t) div COMPOUND_INTERVAL = (now - (t + COMPOUND_INTERVAL)) div COMPOUND_INTERVAL + 1"
    by (simp only: div_mult_self1) (simp add: COMPOUND_INTERVAL_def)
  moreover have "0 \<le> (now - (t + COMPOUND_INTERVAL)) div COMPOUND_INTERVAL"
    using assms by (simp add: COMPOUND_INTERVAL_def pos_imp_zdiv_nonneg_iff)
  ultimately show ?thesis by (simp add: spec_periods_crossed_def nat_add_distrib)
qed

lemma record_growth_event:
  assumes "c_id c = Some i" "0 < i" "is_money p" "is_money g" "tol9 < g - p" "0 \<le> g"
    "projected_balance c = g"
  shows "record_balance_event s c ''compound_growth'' (g - p) t =
         s\<lparr>balance_events := balance_events s @
           [\<lparr>ev_id = Suc (length (balance_events s)), ev_customer_id = i,
             event_type = ''compound_growth'', event_time = t, change_amount = g - p,
             balance_after = g\<rparr>]\<rparr>"
proof -
  have "round2 (g - p) = g - p" using is_money_diff [OF assms(4,3)] by (simp add: is_money_def)
  moreover have "round2 g = g" using assms(4) by (simp add: is_money_def)
  moreover have "\<not> \<bar>g - p\<bar> \<le> tol9" using assms(5) by linarith
  ultimately show ?thesis using assms(1,2,6,7)
    by (simp add: record_balance_event_def round_amount_def max_def)
qed

lemma compound_loop_first:
  assumes "t \<le> now" "c_id c = Some i" "0 < i" "is_money p" "3 / 100 \<le> p"
  shows "compound_loop now c (Some s) p t u =
     compound_loop now
       (c\<lparr>projected_balance := spec_compounded p,
          next_compound_at := Some (t + COMPOUND_INTERVAL)\<rparr>)
       (Some (s\<lparr>balance_events := balance_events s @
           [\<lparr>ev_id = Suc (length (balance_events s)), ev_customer_id = i,
             event_type = ''compound_growth'', event_time = t,
             change_amount = spec_compounded p - p, balance_after = spec_compounded p\<rparr>]\<rparr>))
       (spec_compounded p) (t + COMPOUND_INTERVAL) True"
proof -
  let ?g = "round2 (p * (1 + COMPOUND_INTEREST_RATE))"
  have inc: "tol9 < ?g - p" by (rule grow_increment [OF assms(5)])
  have g0: "0 \<le> ?g" using grow_gt [OF assms(5)] assms(5) by linarith
  have ev: "record_balance_event s (c\<lparr>projected_balance := ?g\<rparr>) ''compound_growth'' (?g - p) t =
         s\<lparr>balance_events := balance_events s @
           [\<lparr>ev_id = Suc (length (balance_events s)), ev_customer_id = i,
             event_type = ''compound_growth'', event_time = t, change_amount = ?g - p,
             balance_after = ?g\<rparr>]\<rparr>"
    by (rule record_growth_event) (use assms inc g0 in \<open>simp_all add: is_money_round2\<close>)
  show ?thesis
    using inc by (simp add: compound_loop_step [OF assms(1)] ev spec_compounded_def)
qed

lemma spec_compounded_keeps:
  assumes "3 / 100 \<le> p"
  shows "is_money (spec_compounded p)" "3 / 100 \<le> spec_compounded p"
  using grow_gt [OF assms] assms by (simp_all add: spec_compounded_def is_money_round2)

lemma compound_loop_periods:
  assumes "t \<le> now" "c_id c = Some i" "0 < i" "is_money p" "3 / 100 \<le> p"
  shows "compound_loop now c (Some s) p t u =
     (c\<lparr>projected_balance := spec_balance_after_periods p (spec_periods_crossed t now),
        next_compound_at := Some (t + int (spec_periods_crossed t now) * COMPOUND_INTERVAL)\<rparr>,
      Some (s\<lparr>balance_events := balance_events s @
              spec_growth_events i (length (balance_events s)) t p (spec_periods_crossed t now)\<rparr>),
      spec_balance_after_periods p (spec_periods_crossed t now),
      t + int (spec_periods_crossed t now) * COMPOUND_INTERVAL, True)"
  using assms
proof (induction "nat ((now - t) div COMPOUND_INTERVAL)" arbitrary: t c s p u)
  case 0
  have I: "0 < COMPOUND_INTERVAL" by (simp add: COMPOUND_INTERVAL_def)
  from 0 have "(now - t) div COMPOUND_INTERVAL \<le> 0" by simp
  then have "now - t < COMPOUND_INTERVAL" using I
    by (metis div_pos_geq linorder_not_less zero_less_one_class.zero_le_one not_less pos_imp_zdiv_pos_iff)
  then have lt: "now < t + COMPOUND_INTERVAL" by simp
  show ?case
    unfolding compound_loop_first [OF "0.prems"] periods_last [OF "0.prems"(1) lt]
    by (simp add: compound_loop_stop [OF lt])
next
  case (Suc n)
  have I: "0 < COMPOUND_INTERVAL" by (simp add: COMPOUND_INTERVAL_def)
  from Suc.hyps(2) have "1 \<le> (now - t) div COMPOUND_INTERVAL" by linarith
  then have "COMPOUND_INTERVAL \<le> now - t" using I
    by (metis div_pos_pos_trivial linorder_not_less not_one_le_zero Suc.prems(1) diff_ge_0_iff_ge)
  then have ge: "t + COMPOUND_INTERVAL \<le> now" by simp
  have n: "n = nat ((now - (t + COMPOUND_INTERVAL)) div COMPOUND_INTERVAL)"
    using Suc.hyps(2) periods_more [OF ge] by (simp add: spec_periods_crossed_def)
  show ?case
    unfolding compound_loop_first [OF Suc.prems] periods_more [OF ge]
    by (subst Suc.hyps(1) [OF n ge])
       (use Suc.prems spec_compounded_keeps [OF Suc.prems(5)] in \<open>simp_all add: algebra_simps\<close>)
qed

lemma small_money:
  assumes "is_money p" "0 < p" "p < 3 / 100"
  shows "p = 1 / 100 \<or> p = 2 / 100"
proof -
  from assms(1) obtain n :: int where n: "p = of_int n / 100" unfolding is_money_iff by blast
  with assms(2,3) have "0 < n" "n < 3" by simp_all
  then have "n = 1 \<or> n = 2" by linarith
  with n show ?thesis by auto
qed

lemma grow_small:
  assumes "is_money p" "0 < p" "p < 3 / 100"
  shows "round2 (p * (1 + COMPOUND_INTEREST_RATE)) = p"
proof -
  have r: "round2 (1 / 100 * (1 + COMPOUND_INTEREST_RATE)) = 1 / 100"
    "round2 (2 / 100 * (1 + COMPOUND_INTEREST_RATE)) = 2 / 100"
    by (simp_all add: round2_def round_half_even_def COMPOUND_INTEREST_RATE_def)
  from small_money [OF assms] show ?thesis
  proof
    assume "p = 1 / 100" then show ?thesis by (simp only: r)
  next
    assume "p = 2 / 100" then show ?thesis by (simp only: r)
  qed
qed

lemma compound_loop_small:
  assumes "t \<le> now" "is_money p" "0 < p" "p < 3 / 100" "projected_balance c = p"
  shows "compound_loop now c (Some s) p t u =
     (c\<lparr>next_compound_at := Some (t + int (spec_periods_crossed t now) * COMPOUND_INTERVAL)\<rparr>,
      Some s, p, t + int (spec_periods_crossed t now) * COMPOUND_INTERVAL, True)"
  using assms
proof (induction "nat ((now - t) div COMPOUND_INTERVAL)" arbitrary: t c u)
  case 0
  have I: "0 < COMPOUND_INTERVAL" by (simp add: COMPOUND_INTERVAL_def)
  from 0 have "(now - t) div COMPOUND_INTERVAL \<le> 0" by simp
  then have "now - t < COMPOUND_INTERVAL" using I
    by (metis div_pos_geq linorder_not_less zero_less_one_class.zero_le_one not_less pos_imp_zdiv_pos_iff)
  then have lt: "now < t + COMPOUND_INTERVAL" by simp
  have c: "c\<lparr>projected_balance := p\<rparr> = c" using "0.prems"(5) by simp
  show ?case
    unfolding compound_loop_step [OF "0.prems"(1)] grow_small [OF "0.prems"(2,3,4)]
      periods_last [OF "0.prems"(1) lt]
    by (simp add: compound_loop_stop [OF lt] c)
next
  case (Suc n)
  have I: "0 < COMPOUND_INTERVAL" by (simp add: COMPOUND_INTERVAL_def)
  from Suc.hyps(2) have "1 \<le> (now - t) div COMPOUND_INTERVAL" by linarith
  then have "COMPOUND_INTERVAL \<le> now - t" using I
    by (metis div_pos_pos_trivial linorder_not_less not_one_le_zero Suc.prems(1) diff_ge_0_iff_ge)
  then have ge: "t + COMPOUND_INTERVAL \<le> now" by simp
  have n: "n = nat ((now - (t + COMPOUND_INTERVAL)) div COMPOUND_INTERVAL)"
    using Suc.hyps(2) periods_more [OF ge] by (simp add: spec_periods_crossed_def)
  have c: "c\<lparr>projected_balance := p\<rparr> = c" using Suc.prems(5) by simp
  have IH: "compound_loop now (c\<lparr>next_compound_at := Some (t + COMPOUND_INTERVAL)\<rparr>)
      (Some s) p (t + COMPOUND_INTERVAL) True =
     (c\<lparr>next_compound_at := Some (t + COMPOUND_INTERVAL)\<rparr>
       \<lparr>next_compound_at := Some (t + COMPOUND_INTERVAL +
           int (spec_periods_crossed (t + COMPOUND_INTERVAL) now) * COMPOUND_INTERVAL)\<rparr>,
      Some s, p, t + COMPOUND_INTERVAL +
           int (spec_periods_crossed (t + COMPOUND_INTERVAL) now) * COMPOUND_INTERVAL, True)"
    by (rule Suc.hyps(1) [OF n ge Suc.prems(2,3,4)]) (simp add: Suc.prems(5))
  have "compound_loop now c (Some s) p t u =
      compound_loop now (c\<lparr>next_compound_at := Some (t + COMPOUND_INTERVAL)\<rparr>)
        (Some s) p (t + COMPOUND_INTERVAL) True"
    unfolding compound_loop_step [OF Suc.prems(1)] grow_small [OF Suc.prems(2,3,4)]
    by (simp add: c)
  also note IH
  finally show ?case unfolding periods_more [OF ge] by (simp add: algebra_simps)
qed

text \<open>
  Claim C5, as amended. For a customer with a two-decimal projected balance \<open>P\<close> of at
  least 0.03 and a boundary \<open>t \<le> now\<close>, \<open>_apply_compound_growth\<close> crosses
  \<open>k = (now - t) div 30 days + 1\<close> boundaries: the balance is \<open>P\<close> multiplied
  by 1.20 and rounded to two decimals \<open>k\<close> times, exactly \<open>k\<close> events of type
  \<open>compound_growth\<close> are appended, one per period, dated at the boundary crossed and
  carrying the balance after the period and its difference to the balance before, and the
  next boundary is \<open>t\<close> plus \<open>k\<close> intervals of 30 days, whatever \<open>now\<close> is.
  A positive two-decimal balance below 0.03 is 0.01 or 0.02, whose growth rounds to zero:
  the same \<open>k\<close> boundaries are crossed and the next boundary moves in the same way,
  but the balance stays as it is and no event is written.
\<close>

theorem advance_compounds_per_period:
  assumes "c_id c = Some i" and "0 < i"
    and "is_money (projected_balance c)" and "0 < projected_balance c"
    and "next_compound_at c = Some t" and "t \<le> now"
  shows "(3 / 100 \<le> projected_balance c \<longrightarrow>
     apply_compound_growth c now (Some s) =
     (True,
      c\<lparr>projected_balance :=
           spec_balance_after_periods (projected_balance c) (spec_periods_crossed t now),
         next_compound_at := Some (t + int (spec_periods_crossed t now) * COMPOUND_INTERVAL)\<rparr>,
      Some (s\<lparr>balance_events := balance_events s @
              spec_growth_events i (length (balance_events s)) t (projected_balance c)
                (spec_periods_crossed t now)\<rparr>))
     \<and> length (spec_growth_events i (length (balance_events s)) t (projected_balance c)
                    (spec_periods_crossed t now)) = spec_periods_crossed t now)
   \<and> (projected_balance c < 3 / 100 \<longrightarrow>
     (projected_balance c = 1 / 100 \<or> projected_balance c = 2 / 100) \<and>
     apply_compound_growth c now (Some s) =
     (True,
      c\<lparr>next_compound_at := Some (t + int (spec_periods_crossed t now) * COMPOUND_INTERVAL)\<rparr>,
      Some s))"
proof (intro conjI impI)
  assume big: "3 / 100 \<le> projected_balance c"
  have pos: "\<not> max (projected_balance c) 0 \<le> 0" "max (projected_balance c) 0 = projected_balance c"
    using assms(4) by (simp_all add: max_def)
  show "apply_compound_growth c now (Some s) =
     (True,
      c\<lparr>projected_balance :=
           spec_balance_after_periods (projected_balance c) (spec_periods_crossed t now),
         next_compound_at := Some (t + int (spec_periods_crossed t now) * COMPOUND_INTERVAL)\<rparr>,
      Some (s\<lparr>balance_events := balance_events s @
              spec_growth_events i (length (balance_events s)) t (projected_balance c)
                (spec_periods_crossed t now)\<rparr>))"
    using assms(5) pos
    by (simp add: apply_compound_growth_def ensure_myt_datetime_def Let_def
          compound_loop_periods [OF assms(6,1,2,3) big])
next
  have len: "length (spec_growth_events i n t' p k) = k" for n t' p k
    by (induction k arbitrary: n t' p) simp_all
  show "length (spec_growth_events i (length (balance_events s)) t (projected_balance c)
                    (spec_periods_crossed t now)) = spec_periods_crossed t now"
    by (rule len)
next
  assume small: "projected_balance c < 3 / 100"
  show "projected_balance c = 1 / 100 \<or> projected_balance c = 2 / 100"
    by (rule small_money [OF assms(3,4) small])
next
  assume small: "projected_balance c < 3 / 100"
  have pos: "\<not> max (projected_balance c) 0 \<le> 0" "max (projected_balance c) 0 = projected_balance c"
    using assms(4) by (simp_all add: max_def)
  show "apply_compound_growth c now (Some s) =
     (True,
      c\<lparr>next_compound_at := Some (t + int (spec_periods_crossed t now) * COMPOUND_INTERVAL)\<rparr>,
      Some s)"
    using assms(5) pos
    by (simp add: apply_compound_growth_def ensure_myt_datetime_def Let_def
          compound_loop_small [OF assms(6,3,4) small refl])
qed

text \<open>
  The scenario of the specification: a balance of 400 whose boundary passed one day ago
  becomes 480.00 with one event of 80.00, and the boundary moves by 30 days from its old
  value.
\<close>

theorem advance_compounds_per_period_witness:
  "apply_compound_growth
     \<lparr>c_id = Some 1, projected_balance = 400, last_principal = 400, next_compound_at = Some 0\<rparr>
     86400000000 (Some empty_session) =
   (True,
    \<lparr>c_id = Some 1, projected_balance = 480, last_principal = 400,
      next_compound_at = Some 2592000000000\<rparr>,
    Some (empty_session\<lparr>balance_events := [\<lparr>ev_id = 1, ev_customer_id = 1, event_type = ''compound_growth'', event_time = 0,
           change_amount = 80, balance_after = 480\<rparr>]\<rparr>))"
proof -
  have k: "spec_periods_crossed 0 86400000000 = 1"
    by (simp add: spec_periods_crossed_def COMPOUND_INTERVAL_def)
  have g: "spec_compounded 400 = 480"
    by (simp add: spec_compounded_def round2_def round_half_even_def COMPOUND_INTEREST_RATE_def)
  have m: "is_money 400"
    by (simp add: is_money_def round2_def round_half_even_def)
  show ?thesis
    using advance_compounds_per_period [of
        "\<lparr>c_id = Some 1, projected_balance = 400, last_principal = 400, next_compound_at = Some 0\<rparr>"
        1 0 86400000000 empty_session] m
    by (simp add: k g COMPOUND_INTERVAL_def empty_session_def)
qed

text \<open>
  Claim C5 as stated fails for a balance of 0.01: the period is crossed and the boundary
  moves, but 0.01 times 1.20 rounds back to 0.01, the increment is zero and the guard
  \<open>increment > 1e-9\<close> keeps the event from being written.
\<close>

theorem advance_growth_event_counterexample:
  "apply_compound_growth
     \<lparr>c_id = Some 1, projected_balance = 1 / 100, last_principal = 1 / 100,
       next_compound_at = Some 0\<rparr>
     86400000000 (Some empty_session) =
   (True,
    \<lparr>c_id = Some 1, projected_balance = 1 / 100, last_principal = 1 / 100,
      next_compound_at = Some 2592000000000\<rparr>,
    Some empty_session)"
  by (simp add: apply_compound_growth_def ensure_myt_datetime_def Let_def
        compound_loop.simps COMPOUND_INTERVAL_def COMPOUND_INTEREST_RATE_def
        round2_def round_half_even_def)

section \<open>Properties of the bank transaction ledger\<close>

lemma is_money_add: "is_money x \<Longrightarrow> is_money y \<Longrightarrow> is_money (x + y)"
proof -
  assume "is_money x" "is_money y"
  then obtain a b :: int where "x = of_int a / 100" "y = of_int b / 100"
    unfolding is_money_iff by blast
  then have "x + y = of_int (a + b) / 100" by (simp add: field_simps)
  then show ?thesis unfolding is_money_iff ..
qed

lemma is_money_minus: "is_money x \<Longrightarrow> is_money (- x)"
  using is_money_diff [OF is_money_0, of x] by simp

lemma is_money_sum_list: "(\<forall>x \<in> set xs. is_money x) \<Longrightarrow> is_money (sum_list xs)"
  by (induction xs) (simp_all add: is_money_0 is_money_add)

lemma money_tiny_zero: "is_money x \<Longrightarrow> \<bar>x\<bar> \<le> tol9 \<longleftrightarrow> x = 0"
  using money_close_eq [OF _ is_money_0, of x] by auto

lemma greatest_key_row_last:
  "sorted_wrt (<) (map bt_id rows) \<Longrightarrow>
   greatest_key_row rows = (if rows = [] then None else Some (last rows))"
proof (induction rows)
  case Nil
  then show ?case by simp
next
  case (Cons r rs)
  show ?case
  proof (cases "rs = []")
    case True
    then show ?thesis by simp
  next
    case False
    from Cons.prems have lt: "bt_id r < bt_id (last rs)" using False by simp
    from Cons have "greatest_key_row rs = Some (last rs)" using False by simp
    with lt False show ?thesis by simp
  qed
qed

lemma ledger_ok_balance:
  assumes "ledger_ok (bank_transactions s)"
  shows "get_bank_balance s = sum_list (map amount (bank_transactions s))"
    and "get_bank_balance s =
         (if bank_transactions s = [] then 0 else bt_balance_after (last (bank_transactions s)))"
proof -
  let ?rows = "bank_transactions s"
  have m: "is_money (sum_list (map amount ?rows))"
    using assms by (intro is_money_sum_list) (auto simp: ledger_ok_def)
  have latest: "latest_bank_transaction s = (if ?rows = [] then None else Some (last ?rows))"
    using assms by (simp add: latest_bank_transaction_def ledger_ok_def greatest_key_row_last)
  have lastsum: "bt_balance_after (last ?rows) = sum_list (map amount ?rows)" if "?rows \<noteq> []"
  proof -
    from that have "length ?rows - 1 < length ?rows" by simp
    with assms have "bt_balance_after (?rows ! (length ?rows - 1)) =
        sum_list (map amount (take (Suc (length ?rows - 1)) ?rows))"
      unfolding ledger_ok_def by blast
    with that show ?thesis by (simp add: last_conv_nth)
  qed
  show "get_bank_balance s = sum_list (map amount ?rows)"
    using m lastsum by (simp add: get_bank_balance_def latest round_amount_def is_money_def)
  then show "get_bank_balance s = (if ?rows = [] then 0 else bt_balance_after (last ?rows))"
    using lastsum by simp
qed

lemma record_bank_transaction_rows:
  "bank_transactions (fst (record_bank_transaction s ty amt rt ri ci)) =
     (if round2 amt = 0 then bank_transactions s
      else bank_transactions s @
        [\<lparr>bt_id = Suc (length (bank_transactions s)), transaction_type = ty,
          amount = round2 amt, bt_balance_after = round2 (get_bank_balance s + round2 amt),
          reference_type = rt, reference_id = ri, bt_customer_id = ci\<rparr>])"
  using money_tiny_zero [OF is_money_round2, of amt]
  by (simp add: record_bank_transaction_def round_amount_def Let_def)

lemma record_bank_transaction_ok:
  assumes "ledger_ok (bank_transactions s)"
  shows "ledger_ok (bank_transactions (fst (record_bank_transaction s ty amt rt ri ci)))"
proof (cases "round2 amt = 0")
  case True
  with assms show ?thesis by (simp add: record_bank_transaction_rows)
next
  case False
  let ?rows = "bank_transactions s"
  let ?e = "\<lparr>bt_id = Suc (length ?rows), transaction_type = ty,
          amount = round2 amt, bt_balance_after = round2 (get_bank_balance s + round2 amt),
          reference_type = rt, reference_id = ri, bt_customer_id = ci\<rparr>"
  have bal: "get_bank_balance s = sum_list (map amount ?rows)" by (rule ledger_ok_balance [OF assms])
  have "is_money (sum_list (map amount ?rows))"
    using assms by (intro is_money_sum_list) (auto simp: ledger_ok_def)
  then have new: "round2 (get_bank_balance s + round2 amt) = sum_list (map amount ?rows) + round2 amt"
    using is_money_add [OF _ is_money_round2] by (simp add: bal is_money_def)
  have 1: "sorted_wrt (<) (map bt_id (?rows @ [?e]))"
    using assms by (auto simp: ledger_ok_def sorted_wrt_append)
  have 2: "\<forall>r \<in> set (?rows @ [?e]). bt_id r \<le> length (?rows @ [?e])"
    using assms by (auto simp: ledger_ok_def)
  have 3: "\<forall>r \<in> set (?rows @ [?e]). is_money (amount r) \<and> amount r \<noteq> 0"
    using assms False by (auto simp: ledger_ok_def is_money_round2)
  have 4: "\<forall>n < length (?rows @ [?e]). bt_balance_after ((?rows @ [?e]) ! n) =
      sum_list (map amount (take (Suc n) (?rows @ [?e])))"
  proof (intro allI impI)
    fix n assume "n < length (?rows @ [?e])"
    then consider "n < length ?rows" | "n = length ?rows" by fastforce
    then show "bt_balance_after ((?rows @ [?e]) ! n) =
      sum_list (map amount (take (Suc n) (?rows @ [?e])))"
    proof cases
      case 1
      with assms show ?thesis by (simp add: ledger_ok_def nth_append)
    next
      case 2
      then show ?thesis by (simp add: new)
    qed
  qed
  show ?thesis
    unfolding record_bank_transaction_rows using False 1 2 3 4
    by (simp only: ledger_ok_def if_False)
qed

lemma append_all_ok:
  "ledger_ok (bank_transactions s) \<Longrightarrow> ledger_ok (bank_transactions (append_all s reqs))"
  by (induction reqs arbitrary: s) (simp_all add: record_bank_transaction_ok)

lemma append_all_amounts:
  "map amount (bank_transactions (append_all s reqs)) =
   map amount (bank_transactions s) @
   filter (\<lambda>a. a \<noteq> 0) (map (\<lambda>a. round2 (ba_amount a)) reqs)"
  by (induction reqs arbitrary: s) (simp_all add: record_bank_transaction_rows)

text \<open>
  Claim C3. Start from a session whose ledger is empty and make any sequence of calls to
  \<open>record_bank_transaction\<close>. Then the running balance of the N-th row is the sum of
  the amounts of the first N rows, \<open>get_bank_balance\<close> is the running balance of the
  last row (zero on the empty ledger), no row has an amount that rounds to zero, and the
  rows are exactly the requests whose rounded amount is not zero, in the order made.
\<close>

theorem bank_ledger_running_balance:
  assumes "bank_transactions s = []"
  shows "(\<forall>n < length (bank_transactions (append_all s reqs)).
            bt_balance_after (bank_transactions (append_all s reqs) ! n) =
            sum_list (map amount (take (Suc n) (bank_transactions (append_all s reqs)))))
       \<and> get_bank_balance (append_all s reqs) =
           (if bank_transactions (append_all s reqs) = [] then 0
            else bt_balance_after (last (bank_transactions (append_all s reqs))))
       \<and> (\<forall>r \<in> set (bank_transactions (append_all s reqs)). round2 (amount r) \<noteq> 0)
       \<and> map amount (bank_transactions (append_all s reqs)) =
           filter (\<lambda>a. a \<noteq> 0) (map (\<lambda>a. round2 (ba_amount a)) reqs)"
proof -
  have "ledger_ok (bank_transactions s)" using assms by (simp add: ledger_ok_def)
  then have ok: "ledger_ok (bank_transactions (append_all s reqs))" by (rule append_all_ok)
  have "\<forall>r \<in> set (bank_transactions (append_all s reqs)). round2 (amount r) \<noteq> 0"
    using ok by (auto simp: ledger_ok_def is_money_def)
  with ok ledger_ok_balance(2) [OF ok] append_all_amounts [of s reqs] assms
  show ?thesis by (simp add: ledger_ok_def)
qed

text \<open>
  Three requests on the empty ledger: 100.00, 0.001 (rounds to zero, not persisted) and
  -30.25 leave two rows with running balances 100.00 and 69.75.
\<close>

theorem bank_ledger_running_balance_witness:
  "bank_transactions empty_session = [] \<and>
   map (\<lambda>r. (bt_id r, amount r, bt_balance_after r))
     (bank_transactions (append_all empty_session
        [\<lparr>ba_type = ''manual_deposit'', ba_amount = 100, ba_reference_type = None,
           ba_reference_id = None, ba_customer_id = None\<rparr>,
         \<lparr>ba_type = ''repayment_receipt'', ba_amount = 1 / 1000, ba_reference_type = None,
           ba_reference_id = None, ba_customer_id = None\<rparr>,
         \<lparr>ba_type = ''loan_disbursement'', ba_amount = - 121 / 4, ba_reference_type = None,
           ba_reference_id = None, ba_customer_id = None\<rparr>]))
   = [(1, 100, 100), (2, - 121 / 4, 279 / 4)] \<and>
   get_bank_balance (append_all empty_session
        [\<lparr>ba_type = ''manual_deposit'', ba_amount = 100, ba_reference_type = None,
           ba_reference_id = None, ba_customer_id = None\<rparr>,
         \<lparr>ba_type = ''repayment_receipt'', ba_amount = 1 / 1000, ba_reference_type = None,
           ba_reference_id = None, ba_customer_id = None\<rparr>,
         \<lparr>ba_type = ''loan_disbursement'', ba_amount = - 121 / 4, ba_reference_type = None,
           ba_reference_id = None, ba_customer_id = None\<rparr>]) = 279 / 4"
proof -
  have e: "bank_transactions empty_session = []" by (simp add: empty_session_def)
  show ?thesis
    using bank_ledger_running_balance [OF e, of
        "[\<lparr>ba_type = ''manual_deposit'', ba_amount = 100, ba_reference_type = None,
           ba_reference_id = None, ba_customer_id = None\<rparr>,
         \<lparr>ba_type = ''repayment_receipt'', ba_amount = 1 / 1000, ba_reference_type = None,
           ba_reference_id = None, ba_customer_id = None\<rparr>,
         \<lparr>ba_type = ''loan_disbursement'', ba_amount = - 121 / 4, ba_reference_type = None,
           ba_reference_id = None, ba_customer_id = None\<rparr>]"]
    by (simp add: empty_session_def record_bank_transaction_def get_bank_balance_def
          latest_bank_transaction_def round_amount_def round2_def round_half_even_def Let_def)
qed

section \<open>Properties of the loan balance guard\<close>

lemma round_half_even_pos: assumes "1 / 2 < y" shows "0 < round_half_even y"
proof -
  have f: "0 \<le> \<lfloor>y\<rfloor>" using assms by (simp add: zero_le_floor)
  show ?thesis
  proof (cases "\<lfloor>y\<rfloor> = 0")
    case True
    then have "1 / 2 < y - of_int \<lfloor>y\<rfloor>" using assms by simp
    then show ?thesis using True by (simp add: round_half_even_def Let_def)
  next
    case False
    with f have "0 < \<lfloor>y\<rfloor>" by linarith
    then show ?thesis unfolding round_half_even_def Let_def by (auto; linarith)
  qed
qed

lemma round2_pos: assumes "1 / 200 < x" shows "0 < round2 x"
proof -
  have "1 / 2 < x * 100" using assms by simp
  then have "0 < round_half_even (x * 100)" by (rule round_half_even_pos)
  then show ?thesis by (simp add: round2_def)
qed

lemma round2_nonpos: assumes "x \<le> 0" shows "round2 x \<le> 0"
proof -
  have "round2 x \<le> x + 1 / 200" using round2_err [of x] by linarith
  with assms have "round2 x < 1 / 100" by linarith
  moreover have "\<not> 0 < round2 x \<or> 1 / 100 \<le> round2 x"
    using money_pos_ge [OF is_money_round2, of x] by blast
  ultimately show ?thesis by linarith
qed

lemma sum_abs_nonneg: "0 \<le> sum_list (map (\<lambda>r. \<bar>repayment_amount r\<bar>) rows)"
  by (induction rows) simp_all

lemma filter_exclude:
  "(case ex of None \<Rightarrow> filter P rows | Some x \<Rightarrow> filter (\<lambda>r. rep_id r \<noteq> Some x) (filter P rows)) =
   filter (\<lambda>r. P r \<and> (case ex of None \<Rightarrow> True | Some x \<Rightarrow> rep_id r \<noteq> Some x)) rows"
  by (cases ex) (simp_all add: conj_commute)

text \<open>
  Claim C6, as amended. The guard raises one of the two insufficient-balance errors
  exactly when the remaining balance is not positive and the normalised amount is
  positive, or the normalised amount exceeds the remaining balance by more than 1e-9.
  Here the normalised amount is the absolute value of the proposed amount rounded to two
  decimals, and the remaining balance is the compounded amount of the loan's principal
  floored at zero, less the absolute repayments on the loan (without the excluded one),
  rounded to two decimals and floored at zero. When the guard does not raise it hands
  the session back as it got it.
\<close>

theorem guard_raises_iff:
  "((\<exists>e. ensure_repayment_within_loan_balance s loan_ref amt ex = Inl e \<and>
         is_InsufficientLoanBalance e) \<longleftrightarrow>
     (let remaining =
            max 0 (round2 (spec_compounded (max (loan_amount loan_ref) 0) -
              sum_list (map (\<lambda>r. \<bar>repayment_amount r\<bar>)
                (filter (\<lambda>r. rep_loan_id r = loan_id loan_ref \<and>
                     (case ex of None \<Rightarrow> True | Some x \<Rightarrow> rep_id r \<noteq> Some x))
                   (repayments s)))));
          proposed = round2 \<bar>amt\<bar>
      in (remaining \<le> 0 \<and> 0 < proposed) \<or> tol9 < proposed - remaining))
   \<and> ((\<forall>e. ensure_repayment_within_loan_balance s loan_ref amt ex \<noteq> Inl e) \<longrightarrow>
        ensure_repayment_within_loan_balance s loan_ref amt ex = Inr s)"
proof -
  define remaining where "remaining =
            max 0 (round2 (spec_compounded (max (loan_amount loan_ref) 0) -
              sum_list (map (\<lambda>r. \<bar>repayment_amount r\<bar>)
                (filter (\<lambda>r. rep_loan_id r = loan_id loan_ref \<and>
                     (case ex of None \<Rightarrow> True | Some x \<Rightarrow> rep_id r \<noteq> Some x))
                   (repayments s)))))"
  have n: "max (round2 \<bar>amt\<bar>) 0 = round2 \<bar>amt\<bar>"
    using round2_nonneg [of "\<bar>amt\<bar>"] by simp
  have a: "loan_remaining_compounded_balance s loan_ref ex = remaining"
    unfolding loan_remaining_compounded_balance_def Let_def filter_exclude remaining_def
    by (simp add: initial_compounded_amount_def spec_compounded_def round_amount_def Let_def)
  have g: "ensure_repayment_within_loan_balance s loan_ref amt ex =
     (if remaining \<le> 0 \<and> 0 < round2 \<bar>amt\<bar> then Inl LoanBalanceExhausted
      else if tol9 < round2 \<bar>amt\<bar> - remaining then Inl (LoanBalanceExceeded remaining)
      else Inr s)"
    unfolding ensure_repayment_within_loan_balance_def Let_def a round_amount_def n ..
  show ?thesis
    unfolding Let_def remaining_def [symmetric] g by auto
qed

text \<open>
  A repayment of 50 against a fresh loan of 100 (ceiling 120) passes the guard, which
  returns the session untouched.
\<close>

theorem guard_raises_iff_witness:
  "ensure_repayment_within_loan_balance
     (empty_session\<lparr>loans := [\<lparr>loan_id = Some 1, loan_customer_id = 1, loan_code = ''LN-1'',
                                  loan_date = 0, loan_amount = 100\<rparr>]\<rparr>)
     \<lparr>loan_id = Some 1, loan_customer_id = 1, loan_code = ''LN-1'', loan_date = 0,
       loan_amount = 100\<rparr> 50 None =
   Inr (empty_session\<lparr>loans := [\<lparr>loan_id = Some 1, loan_customer_id = 1, loan_code = ''LN-1'',
                                  loan_date = 0, loan_amount = 100\<rparr>]\<rparr>)"
  using guard_raises_iff [of
      "empty_session\<lparr>loans := [\<lparr>loan_id = Some 1, loan_customer_id = 1, loan_code = ''LN-1'',
                                  loan_date = 0, loan_amount = 100\<rparr>]\<rparr>"
      "\<lparr>loan_id = Some 1, loan_customer_id = 1, loan_code = ''LN-1'', loan_date = 0,
        loan_amount = 100\<rparr>" 50 None]
  by (simp add: ensure_repayment_within_loan_balance_def loan_remaining_compounded_balance_def
        initial_compounded_amount_def round_amount_def round2_def round_half_even_def
        COMPOUND_INTEREST_RATE_def empty_session_def Let_def)

text \<open>
  Claim C6 as stated compares the proposed amount as given. A proposed amount of -200
  against the same loan is rejected by the code, which takes the absolute value, while
  the stated condition does not hold for it.
\<close>

theorem guard_raises_counterexample:
  "ensure_repayment_within_loan_balance
     (empty_session\<lparr>loans := [\<lparr>loan_id = Some 1, loan_customer_id = 1, loan_code = ''LN-1'',
                                  loan_date = 0, loan_amount = 100\<rparr>]\<rparr>)
     \<lparr>loan_id = Some 1, loan_customer_id = 1, loan_code = ''LN-1'', loan_date = 0,
       loan_amount = 100\<rparr> (- 200) None = Inl (LoanBalanceExceeded 120)
   \<and> \<not> spec_guard_raises
     (empty_session\<lparr>loans := [\<lparr>loan_id = Some 1, loan_customer_id = 1, loan_code = ''LN-1'',
                                  loan_date = 0, loan_amount = 100\<rparr>]\<rparr>)
     \<lparr>loan_id = Some 1, loan_customer_id = 1, loan_code = ''LN-1'', loan_date = 0,
       loan_amount = 100\<rparr> (- 200) None"
  by (simp add: ensure_repayment_within_loan_balance_def loan_remaining_compounded_balance_def
        initial_compounded_amount_def round_amount_def round2_def round_half_even_def
        COMPOUND_INTEREST_RATE_def empty_session_def Let_def spec_guard_raises_def
        spec_remaining_balance_def spec_compounded_def)

text \<open>
  Claim C10, as amended. The compounded amount of a principal is the principal floored at
  zero, times 1.20, rounded to two decimals. A loan with a negative principal therefore
  has a remaining balance of zero, and every proposed repayment of more than half a cent
  in absolute value, which is every amount that does not round to 0.00, is rejected with
  the insufficient-balance error.
\<close>

theorem negative_principal_rejects:
  "initial_compounded_amount x = round2 (max x 0 * (1 + COMPOUND_INTEREST_RATE)) \<and>
   (loan_amount loan_ref < 0 \<longrightarrow>
      loan_remaining_compounded_balance s loan_ref ex = 0 \<and>
      (1 / 200 < \<bar>amt\<bar> \<longrightarrow>
         ensure_repayment_within_loan_balance s loan_ref amt ex = Inl LoanBalanceExhausted))"
proof -
  have rem: "loan_remaining_compounded_balance s loan_ref ex = 0" if "loan_amount loan_ref < 0"
  proof -
    have z: "initial_compounded_amount (loan_amount loan_ref) = 0"
      using that by (simp add: initial_compounded_amount_def max_def round2_def round_half_even_def)
    have "round2 (0 - sum_list (map (\<lambda>r. \<bar>repayment_amount r\<bar>) rows)) \<le> 0" for rows
      using sum_abs_nonneg [of rows] by (intro round2_nonpos) simp
    then show ?thesis
      unfolding loan_remaining_compounded_balance_def Let_def z round_amount_def
      by (simp add: max_def)
  qed
  have rej: "ensure_repayment_within_loan_balance s loan_ref amt ex = Inl LoanBalanceExhausted"
    if "loan_amount loan_ref < 0" "1 / 200 < \<bar>amt\<bar>"
    using rem [OF that(1)] round2_pos [OF that(2)]
    by (simp add: ensure_repayment_within_loan_balance_def round_amount_def Let_def max_def)
  show ?thesis
    using rem rej by (simp add: initial_compounded_amount_def Let_def)
qed

text \<open>A repayment of 10 against a loan whose principal is -100 is rejected.\<close>

theorem negative_principal_rejects_witness:
  "ensure_repayment_within_loan_balance empty_session
     \<lparr>loan_id = Some 1, loan_customer_id = 1, loan_code = ''LN-1'', loan_date = 0,
       loan_amount = - 100\<rparr> 10 None = Inl LoanBalanceExhausted"
  using negative_principal_rejects [of 0
      "\<lparr>loan_id = Some 1, loan_customer_id = 1, loan_code = ''LN-1'', loan_date = 0,
        loan_amount = - 100\<rparr>" empty_session None 10]
  by simp

text \<open>
  Claim C10 as stated (every positive proposed repayment) fails for a repayment of 0.004
  against the same loan: the amount rounds to 0.00 and the guard lets it through.
\<close>

theorem negative_principal_counterexample:
  "ensure_repayment_within_loan_balance empty_session
     \<lparr>loan_id = Some 1, loan_customer_id = 1, loan_code = ''LN-1'', loan_date = 0,
       loan_amount = - 100\<rparr> (1 / 250) None = Inr empty_session"
  by (simp add: ensure_repayment_within_loan_balance_def loan_remaining_compounded_balance_def
        initial_compounded_amount_def round_amount_def round2_def round_half_even_def
        COMPOUND_INTEREST_RATE_def empty_session_def Let_def)

section \<open>What the operations leave alone\<close>

lemma session_after_Some [simp]: "session_after (Some s') s = s'"
  by (simp add: session_after_def)

lemma save_customer_fields [simp]:
  "loans (save_customer s c) = loans s"
  "repayments (save_customer s c) = repayments s"
  "balance_events (save_customer s c) = balance_events s"
  "bank_transactions (save_customer s c) = bank_transactions s"
  by (simp_all add: save_customer_def)

lemma record_balance_event_fields [simp]:
  "customers (record_balance_event s c ty d t) = customers s"
  "loans (record_balance_event s c ty d t) = loans s"
  "repayments (record_balance_event s c ty d t) = repayments s"
  "bank_transactions (record_balance_event s c ty d t) = bank_transactions s"
  by (simp_all add: record_balance_event_def split: option.splits)

lemma record_balance_event_last_principal [simp]:
  "record_balance_event s (c\<lparr>last_principal := x\<rparr>) ty d t = record_balance_event s c ty d t"
  by (cases "c_id c") (simp_all add: record_balance_event_def)

lemma record_bank_transaction_fields [simp]:
  "customers (fst (record_bank_transaction s ty a rt ri ci)) = customers s"
  "loans (fst (record_bank_transaction s ty a rt ri ci)) = loans s"
  "repayments (fst (record_bank_transaction s ty a rt ri ci)) = repayments s"
  "balance_events (fst (record_bank_transaction s ty a rt ri ci)) = balance_events s"
  by (simp_all add: record_bank_transaction_def Let_def)

lemma insert_loan_fields [simp]:
  "customers (snd (insert_loan s l)) = customers s"
  "repayments (snd (insert_loan s l)) = repayments s"
  "balance_events (snd (insert_loan s l)) = balance_events s"
  "bank_transactions (snd (insert_loan s l)) = bank_transactions s"
  "loan_customer_id (fst (insert_loan s l)) = loan_customer_id l"
  "loan_amount (fst (insert_loan s l)) = loan_amount l"
  "loan_date (fst (insert_loan s l)) = loan_date l"
  by (simp_all add: insert_loan_def Let_def split: option.splits)

lemma insert_repayment_fields [simp]:
  "customers (snd (insert_repayment s r)) = customers s"
  "loans (snd (insert_repayment s r)) = loans s"
  "balance_events (snd (insert_repayment s r)) = balance_events s"
  "bank_transactions (snd (insert_repayment s r)) = bank_transactions s"
  "rep_customer_id (fst (insert_repayment s r)) = rep_customer_id r"
  "repayment_amount (fst (insert_repayment s r)) = repayment_amount r"
  "repayment_date (fst (insert_repayment s r)) = repayment_date r"
  "rep_loan_id (fst (insert_repayment s r)) = rep_loan_id r"
  by (simp_all add: insert_repayment_def Let_def split: option.splits)

lemma find_customer_id: "find_customer s cid = Some c \<Longrightarrow> c_id c = Some cid"
  unfolding find_customer_def by (auto simp: find_Some_iff)

lemma find_customer_mem: "find_customer s cid = Some c \<Longrightarrow> c \<in> set (customers s)"
  unfolding find_customer_def by (auto simp: find_Some_iff)

section \<open>Creating a loan\<close>

lemma compounded_500: "initial_compounded_amount 500 = 600"
  by (simp add: initial_compounded_amount_def COMPOUND_INTEREST_RATE_def round2_def
        round_half_even_def)

lemma round2_600: "round2 600 = 600" and round2_500: "round2 500 = 500"
  and round2_m500: "round2 (- 500) = - 500"
  by (simp_all add: round2_def round_half_even_def)

lemma adjust_from_zero:
  assumes "projected_balance c = 0"
  shows "adjust_projected_balance c 600 now (Some s) =
     (True, c\<lparr>projected_balance := 600, next_compound_at := Some (now + COMPOUND_INTERVAL)\<rparr>,
      Some s)"
  using assms
  by (simp add: adjust_projected_balance_def apply_compound_growth_def ensure_myt_datetime_def
        Let_def round2_600)

text \<open>
  Claim C7, as amended. Creating a loan of 500 for a stored customer whose projected
  balance is zero sets that balance to 600.00, adds 600.00 to the recorded principal,
  schedules the first boundary 30 days after now, and appends exactly one balance event,
  of type \<open>loan_disbursement\<close>, dated at the loan date, whose change is the whole
  compounded amount 600.00 and whose balance is 600.00. The principal leaves through
  the bank ledger as one row of -500.00.
\<close>

theorem create_loan_500:
  assumes "find_customer s cid = Some c" and "0 < cid" and "projected_balance c = 0"
    and "loan_customer_id l = cid" and "loan_amount l = 500"
  shows "\<exists>s'. create_loan s now code l = Inr s' \<and>
     customers s' =
       map (\<lambda>x. if c_id x = Some cid
                 then c\<lparr>projected_balance := 600, last_principal := last_principal c + 600,
                         next_compound_at := Some (now + COMPOUND_INTERVAL)\<rparr>
                 else x) (customers s) \<and>
     balance_events s' = balance_events s @
       [\<lparr>ev_id = Suc (length (balance_events s)), ev_customer_id = cid,
         event_type = ''loan_disbursement'', event_time = loan_date l, change_amount = 600,
         balance_after = 600\<rparr>] \<and>
     map amount (bank_transactions s') = map amount (bank_transactions s) @ [- 500] \<and>
     map transaction_type (bank_transactions s') =
       map transaction_type (bank_transactions s) @ [''loan_disbursement'']"
proof -
  have id: "c_id c = Some cid" by (rule find_customer_id [OF assms(1)])
  have ev: "record_balance_event s0
      (c\<lparr>projected_balance := 600, next_compound_at := Some (now + COMPOUND_INTERVAL)\<rparr>)
      ''loan_disbursement'' 600 t =
      s0\<lparr>balance_events := balance_events s0 @
       [\<lparr>ev_id = Suc (length (balance_events s0)), ev_customer_id = cid,
         event_type = ''loan_disbursement'', event_time = t, change_amount = 600,
         balance_after = 600\<rparr>]\<rparr>" for s0 t
    using id assms(2) by (simp add: record_balance_event_def round_amount_def round2_600)
  show ?thesis
    using assms(1,4,5) id
    by (simp add: create_loan_def get_customer_def compounded_500
          adjust_from_zero [OF assms(3)] ev Let_def split_beta record_bank_transaction_rows
          round_amount_def round2_500 round2_m500 save_customer_def)
qed

text \<open>
  The scenario of the specification on a store with one fresh customer: the balance
  becomes 600.00 and the one event carries 600.00.
\<close>

theorem create_loan_500_witness:
  "\<exists>s'. create_loan
       \<lparr>customers = [\<lparr>c_id = Some 1, projected_balance = 0, last_principal = 0,
                      next_compound_at = None\<rparr>],
         loans = [], repayments = [], balance_events = [], bank_transactions = []\<rparr>
       1000 ''LN-A''
       \<lparr>loan_id = None, loan_customer_id = 1, loan_code = [], loan_date = 1000,
         loan_amount = 500\<rparr> = Inr s' \<and>
     customers s' =
       [\<lparr>c_id = Some 1, projected_balance = 600, last_principal = 600,
         next_compound_at = Some 2592000001000\<rparr>] \<and>
     balance_events s' =
       [\<lparr>ev_id = 1, ev_customer_id = 1, event_type = ''loan_disbursement'', event_time = 1000,
         change_amount = 600, balance_after = 600\<rparr>] \<and>
     map amount (bank_transactions s') = [- 500]"
proof -
  have h: "find_customer
       \<lparr>customers = [\<lparr>c_id = Some 1, projected_balance = 0, last_principal = 0,
                      next_compound_at = None\<rparr>],
         loans = [], repayments = [], balance_events = [], bank_transactions = []\<rparr> 1 =
     Some \<lparr>c_id = Some 1, projected_balance = 0, last_principal = 0, next_compound_at = None\<rparr>"
    by (simp add: find_customer_def)
  show ?thesis
    using create_loan_500 [OF h, of
        "\<lparr>loan_id = None, loan_customer_id = 1, loan_code = [], loan_date = 1000,
          loan_amount = 500\<rparr>" 1000 "''LN-A''"]
    by (auto simp: COMPOUND_INTERVAL_def)
qed

text \<open>
  Claim C7 as stated gives the event a change of 100.00, the markup alone. On the same
  store the event that is written carries 600.00.
\<close>

theorem create_loan_500_counterexample:
  "create_loan
       \<lparr>customers = [\<lparr>c_id = Some 1, projected_balance = 0, last_principal = 0,
                      next_compound_at = None\<rparr>],
         loans = [], repayments = [], balance_events = [], bank_transactions = []\<rparr>
       1000 ''LN-A''
       \<lparr>loan_id = None, loan_customer_id = 1, loan_code = [], loan_date = 1000,
         loan_amount = 500\<rparr> =
   Inr \<lparr>customers = [\<lparr>c_id = Some 1, projected_balance = 600, last_principal = 600,
                         next_compound_at = Some 2592000001000\<rparr>],
         loans = [\<lparr>loan_id = Some 1, loan_customer_id = 1, loan_code = ''LN-A'',
                   loan_date = 1000, loan_amount = 500\<rparr>],
         repayments = [],
         balance_events =
           [\<lparr>ev_id = 1, ev_customer_id = 1, event_type = ''loan_disbursement'',
             event_time = 1000, change_amount = 600, balance_after = 600\<rparr>],
         bank_transactions =
           [\<lparr>bt_id = 1, transaction_type = ''loan_disbursement'', amount = - 500,
             bt_balance_after = - 500, reference_type = Some ''loan'', reference_id = Some 1,
             bt_customer_id = Some 1\<rparr>]\<rparr>"
  by (simp add: create_loan_def get_customer_def find_customer_def compounded_500
        adjust_from_zero Let_def record_balance_event_def round_amount_def round2_600
        round2_500 round2_m500 save_customer_def insert_loan_def next_key_def
        record_bank_transaction_def get_bank_balance_def latest_bank_transaction_def
        COMPOUND_INTERVAL_def)

section \<open>Creating a repayment\<close>

lemma guard_abs:
  "ensure_repayment_within_loan_balance s l \<bar>a\<bar> ex =
   ensure_repayment_within_loan_balance s l a ex"
  by (simp add: ensure_repayment_within_loan_balance_def)

lemma get_bank_balance_cong:
  "bank_transactions s = bank_transactions s' \<Longrightarrow> get_bank_balance s = get_bank_balance s'"
  by (simp add: get_bank_balance_def latest_bank_transaction_def)

lemma balance_events_record:
  "balance_events (record_balance_event s c ty d t) =
   balance_events s @
     (case c_id c of
        None \<Rightarrow> []
      | Some i \<Rightarrow>
          if i = 0 \<or> \<bar>d\<bar> \<le> tol9 then []
          else [\<lparr>ev_id = Suc (length (balance_events s)), ev_customer_id = i, event_type = ty,
                 event_time = t, change_amount = round2 d,
                 balance_after = round2 (max (projected_balance c) 0)\<rparr>])"
  by (simp add: record_balance_event_def round_amount_def split: option.splits)

lemma insert_repayment_sign:
  "rep_id (fst (insert_repayment s (r\<lparr>repayment_amount := a\<rparr>))) =
   rep_id (fst (insert_repayment s r))"
  by (simp add: insert_repayment_def Let_def split: option.splits)

lemma create_repayment_sign:
  "map_sum id (\<lambda>s'. (customers s', loans s', balance_events s', bank_transactions s'))
     (create_repayment s now (r\<lparr>repayment_amount := \<bar>repayment_amount r\<bar>\<rparr>)) =
   map_sum id (\<lambda>s'. (customers s', loans s', balance_events s', bank_transactions s'))
     (create_repayment s now r)"
proof (cases "get_customer s (rep_customer_id r)")
  case (Inl e)
  then show ?thesis by (simp add: create_repayment_def)
next
  case (Inr customer)
  show ?thesis
    unfolding create_repayment_def
    by (simp add: Inr Let_def split_beta guard_abs truthy_def balance_events_record
          record_bank_transaction_rows insert_repayment_sign
          get_bank_balance_cong [of "record_balance_event (snd (insert_repayment s0 r0)) c0 ty d t"
             s0 for s0 r0 c0 ty d t]
          split: option.splits sum.splits)
qed

text \<open>
  Claim C9. \<open>create_repayment\<close> called with an amount and with its absolute value
  raises the same error or succeeds both times, and on success leaves the same customer
  rows (the balance is lowered by the absolute amount either way), the same balance
  events, the same bank ledger and the same loans. Only the stored repayment row keeps
  the sign it was given.
\<close>

theorem create_repayment_ignores_sign:
  "(\<forall>e. create_repayment s now (r\<lparr>repayment_amount := \<bar>repayment_amount r\<bar>\<rparr>) = Inl e \<longleftrightarrow>
        create_repayment s now r = Inl e) \<and>
   (\<forall>s1 s2. create_repayment s now (r\<lparr>repayment_amount := \<bar>repayment_amount r\<bar>\<rparr>) = Inr s1 \<and>
            create_repayment s now r = Inr s2 \<longrightarrow>
            customers s1 = customers s2 \<and> balance_events s1 = balance_events s2 \<and>
            bank_transactions s1 = bank_transactions s2 \<and> loans s1 = loans s2)"
proof -
  let ?a = "create_repayment s now (r\<lparr>repayment_amount := \<bar>repayment_amount r\<bar>\<rparr>)"
  let ?b = "create_repayment s now r"
  from create_repayment_sign [of s now r] show ?thesis
    by (cases ?a; cases ?b) auto
qed

text \<open>
  A repayment entered as -200 against a loan of 500 and the same repayment entered as 200
  are both accepted and both leave a balance of 400.00, one event of -200.00 and one bank
  row of 200.00.
\<close>

theorem create_repayment_ignores_sign_witness:
  "\<exists>s1 s2.
     create_repayment
       \<lparr>customers = [\<lparr>c_id = Some 7, projected_balance = 600, last_principal = 600,
                    next_compound_at = Some 2592000001000\<rparr>],
       loans = [\<lparr>loan_id = Some 3, loan_customer_id = 7, loan_code = ''LN-A'',
                 loan_date = 1000, loan_amount = 500\<rparr>],
       repayments = [], balance_events = [], bank_transactions = []\<rparr> 2000
       \<lparr>rep_id = None, rep_customer_id = 7, rep_loan_id = Some 3, repayment_date = 2000,
       repayment_amount = 200\<rparr> = Inr s1 \<and>
     create_repayment
       \<lparr>customers = [\<lparr>c_id = Some 7, projected_balance = 600, last_principal = 600,
                    next_compound_at = Some 2592000001000\<rparr>],
       loans = [\<lparr>loan_id = Some 3, loan_customer_id = 7, loan_code = ''LN-A'',
                 loan_date = 1000, loan_amount = 500\<rparr>],
       repayments = [], balance_events = [], bank_transactions = []\<rparr> 2000
       \<lparr>rep_id = None, rep_customer_id = 7, rep_loan_id = Some 3, repayment_date = 2000,
       repayment_amount = - 200\<rparr> = Inr s2 \<and>
     customers s1 = customers s2 \<and> balance_events s1 = balance_events s2 \<and>
     bank_transactions s1 = bank_transactions s2 \<and>
     map projected_balance (customers s2) = [400] \<and>
     map change_amount (balance_events s2) = [- 200] \<and>
     map amount (bank_transactions s2) = [200]"
proof -
  have b: "create_repayment
       \<lparr>customers = [\<lparr>c_id = Some 7, projected_balance = 600, last_principal = 600,
                    next_compound_at = Some 2592000001000\<rparr>],
       loans = [\<lparr>loan_id = Some 3, loan_customer_id = 7, loan_code = ''LN-A'',
                 loan_date = 1000, loan_amount = 500\<rparr>],
       repayments = [], balance_events = [], bank_transactions = []\<rparr> 2000
       \<lparr>rep_id = None, rep_customer_id = 7, rep_loan_id = Some 3, repayment_date = 2000,
       repayment_amount = - 200\<rparr> =
     Inr \<lparr>customers =
        [\<lparr>c_id = Some 7, projected_balance = 400, last_principal = 400,
           next_compound_at = Some 2592000001000\<rparr>],
       loans = [\<lparr>loan_id = Some 3, loan_customer_id = 7, loan_code = ''LN-A'',
                 loan_date = 1000, loan_amount = 500\<rparr>],
       repayments =
        [\<lparr>rep_id = Some 1, rep_customer_id = 7, rep_loan_id = Some 3, repayment_date = 2000,
           repayment_amount = - 200\<rparr>],
       balance_events =
        [\<lparr>ev_id = 1, ev_customer_id = 7, event_type = ''repayment'', event_time = 2000,
           change_amount = - 200, balance_after = 400\<rparr>],
       bank_transactions =
        [\<lparr>bt_id = 1, transaction_type = ''repayment_receipt'', amount = 200,
           bt_balance_after = 200, reference_type = Some ''repayment'',
           reference_id = Some 1, bt_customer_id = Some 7\<rparr>]\<rparr>"
    by code_simp
  have a: "create_repayment
       \<lparr>customers = [\<lparr>c_id = Some 7, projected_balance = 600, last_principal = 600,
                    next_compound_at = Some 2592000001000\<rparr>],
       loans = [\<lparr>loan_id = Some 3, loan_customer_id = 7, loan_code = ''LN-A'',
                 loan_date = 1000, loan_amount = 500\<rparr>],
       repayments = [], balance_events = [], bank_transactions = []\<rparr> 2000
       \<lparr>rep_id = None, rep_customer_id = 7, rep_loan_id = Some 3, repayment_date = 2000,
       repayment_amount = 200\<rparr> =
     Inr \<lparr>customers =
        [\<lparr>c_id = Some 7, projected_balance = 400, last_principal = 400,
           next_compound_at = Some 2592000001000\<rparr>],
       loans = [\<lparr>loan_id = Some 3, loan_customer_id = 7, loan_code = ''LN-A'',
                 loan_date = 1000, loan_amount = 500\<rparr>],
       repayments =
        [\<lparr>rep_id = Some 1, rep_customer_id = 7, rep_loan_id = Some 3, repayment_date = 2000,
           repayment_amount = 200\<rparr>],
       balance_events =
        [\<lparr>ev_id = 1, ev_customer_id = 7, event_type = ''repayment'', event_time = 2000,
           change_amount = - 200, balance_after = 400\<rparr>],
       bank_transactions =
        [\<lparr>bt_id = 1, transaction_type = ''repayment_receipt'', amount = 200,
           bt_balance_after = 200, reference_type = Some ''repayment'',
           reference_id = Some 1, bt_customer_id = Some 7\<rparr>]\<rparr>"
    by code_simp
  from create_repayment_ignores_sign [of
       "\<lparr>customers = [\<lparr>c_id = Some 7, projected_balance = 600, last_principal = 600,
                    next_compound_at = Some 2592000001000\<rparr>],
       loans = [\<lparr>loan_id = Some 3, loan_customer_id = 7, loan_code = ''LN-A'',
                 loan_date = 1000, loan_amount = 500\<rparr>],
       repayments = [], balance_events = [], bank_transactions = []\<rparr>" 2000
       "\<lparr>rep_id = None, rep_customer_id = 7, rep_loan_id = Some 3, repayment_date = 2000,
       repayment_amount = - 200\<rparr>"]
  show ?thesis unfolding a b by simp
qed

section \<open>The consistency auditor and negative projected balances\<close>

lemma round2_max_nonneg: "0 \<le> round2 (max x 0)"
  by (rule round2_nonneg) simp

lemma audit_customer_no_negative_issue:
  "0 \<le> tolerance \<Longrightarrow>
   filter (\<lambda>i. message i = ''projected_balance is negative'')
     (audit_customer tolerance s customer) = []"
proof -
  assume t: "0 \<le> tolerance"
  have a: "\<not> round2 (max (projected_balance customer) 0) < - tolerance"
    using round2_max_nonneg [of "projected_balance customer"] t by linarith
  have b: "filter (\<lambda>i. message i = ''projected_balance is negative'')
      (concat (map (\<lambda>entry.
                     if balance_after entry < - tolerance then
                       [\<lparr>severity = ''error'', category = ''balance_events'',
                         entity = ''customer'', entity_id = c_id customer,
                         message = ''balance event recorded negative balance'',
                         details = [(''event_id'', Key (Some (ev_id entry))),
                                    (''balance_after'', Amount (balance_after entry))]\<rparr>]
                     else []) rows)) = []" for rows
    by (induction rows) simp_all
  show ?thesis
    unfolding audit_customer_def Let_def using a by (simp add: b)
qed

lemma audit_never_reports_negative_projected:
  "filter (\<lambda>i. message i = ''projected_balance is negative'')
     (issues (run_audit s tolerance)) = []"
proof -
  have c: "filter (\<lambda>i. message i = ''projected_balance is negative'')
      (concat (map (audit_customer (max tolerance 0) s) cs)) = []" for cs
    by (induction cs) (simp_all add: audit_customer_no_negative_issue)
  have l: "filter (\<lambda>i. message i = ''projected_balance is negative'')
      (concat (map (audit_loan s) ls)) = []" for ls
    by (induction ls) (simp_all add: audit_loan_def)
  have r: "filter (\<lambda>i. message i = ''projected_balance is negative'')
      (concat (map (audit_repayment s) rs)) = []" for rs
    by (induction rs) (simp_all add: audit_repayment_def split: option.splits)
  show ?thesis
    by (simp add: run_audit_def Let_def c l r)
qed

text \<open>
  Claim C8 against the code. A store whose only customer has a stored projected balance
  of -5.00 is audited with the default tolerance: the report has no issue at all. The
  auditor floors the balance at zero before it tests it for being negative, so the test
  cannot succeed; the lemma above shows that for every store and every tolerance.
\<close>

theorem audit_negative_projected_unreported:
  "run_audit
     \<lparr>customers = [\<lparr>c_id = Some 7, projected_balance = - 5, last_principal = 0,
                    next_compound_at = None\<rparr>],
       loans = [], repayments = [], balance_events = [], bank_transactions = []\<rparr>
     (1 / 100) =
   \<lparr>stats = [(''customers'', 1), (''loans'', 0), (''repayments'', 0), (''balance_events'', 0)],
     issues = []\<rparr>"
  by code_simp

section \<open>What the calculator does to a customer\<close>

lemma chain_from_append:
  "chain_from b (xs @ ys) \<longleftrightarrow> chain_from b xs \<and> chain_from (last_balance b xs) ys"
  by (induction xs arbitrary: b) auto

lemma last_balance_append: "last_balance b (xs @ ys) = last_balance (last_balance b xs) ys"
  by (induction xs arbitrary: b) auto


lemma money_step_eq:
  assumes "is_money p" "1 / 100 \<le> p"
    and "\<not> tol9 < round2 (p * (1 + COMPOUND_INTEREST_RATE)) - p"
  shows "round2 (p * (1 + COMPOUND_INTEREST_RATE)) = p"
proof -
  let ?g = "round2 (p * (1 + COMPOUND_INTEREST_RATE))"
  have m: "is_money (?g - p)" "is_money (p - ?g)"
    using assms(1) by (simp_all add: is_money_diff is_money_round2)
  have lo: "p - 1 / 200 < ?g" using grow_lower [of p] assms(2) by linarith
  have "\<not> 0 < ?g - p"
  proof
    assume "0 < ?g - p"
    then have "1 / 100 \<le> ?g - p" by (rule money_pos_ge [OF m(1)])
    moreover have "tol9 < 1 / 100" by simp
    ultimately show False using assms(3) by linarith
  qed
  moreover have "\<not> 0 < p - ?g"
  proof
    assume "0 < p - ?g"
    then have "1 / 100 \<le> p - ?g" by (rule money_pos_ge [OF m(2)])
    with lo show False by linarith
  qed
  ultimately show ?thesis by linarith
qed

lemma record_event_cases:
  "(\<not> (truthy (c_id c) \<and> tol9 < \<bar>d\<bar>) \<and> record_balance_event s c ty d t = s) \<or>
   (\<exists>i. c_id c = Some i \<and> 0 < i \<and> tol9 < \<bar>d\<bar> \<and>
      record_balance_event s c ty d t =
        s\<lparr>balance_events := balance_events s @
          [\<lparr>ev_id = Suc (length (balance_events s)), ev_customer_id = i, event_type = ty,
            event_time = t, change_amount = round2 d,
            balance_after = round2 (max (projected_balance c) 0)\<rparr>]\<rparr>)"
  by (cases "c_id c") (auto simp: record_balance_event_def round_amount_def truthy_def)

lemma compound_loop_events:
  assumes "compound_loop now c (Some s) p t u = (c', so, p', t', u')"
  shows "\<exists>new. so = Some (s\<lparr>balance_events := balance_events s @ new\<rparr>) \<and>
     calc_effect c c' new \<and>
     (is_money p \<and> 1 / 100 \<le> p \<and> truthy (c_id c) \<longrightarrow>
        chain_from p new \<and> last_balance p new = p')"
  using assms
proof (induction now c "Some s" p t u arbitrary: s rule: compound_loop.induct)
  case (1 now customer projected nca updated)
  show ?case
  proof (cases "nca \<le> now")
    case False
    with "1.prems" have "so = Some s" "c' = customer" "p' = projected"
      by (simp_all add: compound_loop.simps)
    then show ?thesis
      by (intro exI [of _ "[]"]) (simp add: calc_effect_def)
  next
    case True
    let ?g = "round2 (projected * (1 + COMPOUND_INTEREST_RATE))"
    let ?c1 = "customer\<lparr>projected_balance := ?g\<rparr>"
    let ?c2 = "customer\<lparr>projected_balance := ?g, next_compound_at := Some (nca + COMPOUND_INTERVAL)\<rparr>"
    define s1 where "s1 = (if tol9 < ?g - projected
        then record_balance_event s ?c1 ''compound_growth'' (?g - projected) nca else s)"
    have eq: "compound_loop now ?c2 (Some s1) ?g (nca + COMPOUND_INTERVAL) True =
        (c', so, p', t', u')"
      using "1.prems"
      by (cases "tol9 < ?g - projected") (simp_all add: compound_loop_step [OF True] s1_def)
    have s1_some: "Some s1 = (case Some s of None \<Rightarrow> None
        | Some sa \<Rightarrow> if tol9 < ?g - projected
            then Some (record_balance_event sa ?c1 ''compound_growth'' (?g - projected) nca)
            else Some sa)"
      by (simp add: s1_def)
    from "1.hyps" [OF True refl refl refl refl s1_some refl refl eq]
    obtain new2 where n2: "so = Some (s1\<lparr>balance_events := balance_events s1 @ new2\<rparr>)"
      "calc_effect ?c2 c' new2"
      "is_money ?g \<and> 1 / 100 \<le> ?g \<and> truthy (c_id ?c2) \<longrightarrow>
         chain_from ?g new2 \<and> last_balance ?g new2 = p'"
      by blast
    consider (none) "s1 = s" "\<not> tol9 < ?g - projected \<or> \<not> truthy (c_id customer)"
      | (one) i where "c_id customer = Some i" "0 < i" "tol9 < ?g - projected"
          "s1 = s\<lparr>balance_events := balance_events s @
            [\<lparr>ev_id = Suc (length (balance_events s)), ev_customer_id = i,
              event_type = ''compound_growth'', event_time = nca,
              change_amount = round2 (?g - projected),
              balance_after = round2 (max ?g 0)\<rparr>]\<rparr>"
    proof (cases "tol9 < ?g - projected")
      case False
      then show ?thesis using that(1) by (simp add: s1_def)
    next
      case inc: True
      from record_event_cases [where s = s and c = ?c1 and ty = "''compound_growth''"
          and d = "?g - projected" and t = nca]
      show ?thesis
      proof
        assume same: "\<not> (truthy (c_id ?c1) \<and> tol9 < \<bar>?g - projected\<bar>) \<and>
          record_balance_event s ?c1 ''compound_growth'' (?g - projected) nca = s"
        with inc have "\<not> truthy (c_id customer)" by simp
        with same inc show ?thesis using that(1) by (simp add: s1_def)
      next
        assume "\<exists>i. c_id ?c1 = Some i \<and> 0 < i \<and> tol9 < \<bar>?g - projected\<bar> \<and>
          record_balance_event s ?c1 ''compound_growth'' (?g - projected) nca =
          s\<lparr>balance_events := balance_events s @
            [\<lparr>ev_id = Suc (length (balance_events s)), ev_customer_id = i,
              event_type = ''compound_growth'', event_time = nca,
              change_amount = round2 (?g - projected),
              balance_after = round2 (max (projected_balance ?c1) 0)\<rparr>]\<rparr>"
        then show ?thesis using that(2) inc by (auto simp: s1_def)
      qed
    qed
    then show ?thesis
    proof cases
      case none
      have "is_money projected \<and> 1 / 100 \<le> projected \<and> truthy (c_id customer) \<longrightarrow>
         chain_from projected new2 \<and> last_balance projected new2 = p'"
      proof (intro impI)
        assume a: "is_money projected \<and> 1 / 100 \<le> projected \<and> truthy (c_id customer)"
        with none(2) have "\<not> tol9 < ?g - projected" by simp
        with a have "?g = projected" by (intro money_step_eq) simp_all
        with n2(3) a show "chain_from projected new2 \<and> last_balance projected new2 = p'"
          by (simp add: is_money_round2)
      qed
      with n2(1,2) none(1) show ?thesis
        by (intro exI [of _ new2]) (simp add: calc_effect_def)
    next
      case (one i)
      let ?e = "\<lparr>ev_id = Suc (length (balance_events s)), ev_customer_id = i,
              event_type = ''compound_growth'', event_time = nca,
              change_amount = round2 (?g - projected),
              balance_after = round2 (max ?g 0)\<rparr>"
      have "is_money projected \<and> 1 / 100 \<le> projected \<and> truthy (c_id customer) \<longrightarrow>
         chain_from projected (?e # new2) \<and> last_balance projected (?e # new2) = p'"
      proof (intro impI)
        assume a: "is_money projected \<and> 1 / 100 \<le> projected \<and> truthy (c_id customer)"
        then have g: "1 / 100 \<le> ?g" by (intro grow_ge_cent) simp
        have r1: "round2 (?g - projected) = ?g - projected"
          using is_money_diff [OF is_money_round2, of projected] a by (simp add: is_money_def)
        have r2: "round2 (max ?g 0) = ?g"
          using g is_money_round2 [of "projected * (1 + COMPOUND_INTEREST_RATE)"]
          by (simp add: max_def is_money_def)
        have c2: "chain_from ?g new2 \<and> last_balance ?g new2 = p'"
          using n2(3) a g by (simp add: is_money_round2)
        have r3: "round2 ?g = ?g"
          using is_money_round2 [of "projected * (1 + COMPOUND_INTEREST_RATE)"]
          by (simp add: is_money_def)
        from g c2 show "chain_from projected (?e # new2) \<and> last_balance projected (?e # new2) = p'"
          by (simp add: r1 r2 r3)
      qed
      with n2(1,2) one show ?thesis
        by (intro exI [of _ "?e # new2"]) (simp add: calc_effect_def)
    qed
  qed
qed

lemma compound_loop_money:
  assumes "compound_loop now c so p t u = (c', so', p', t', u')" and "is_money p"
  shows "is_money p'"
  using assms
proof (induction now c so p t u rule: compound_loop.induct)
  case (1 now customer session projected nca updated)
  show ?case
  proof (cases "nca \<le> now")
    case True
    note IH = "1.IH" [OF True refl refl refl refl refl refl refl]
    show ?thesis
      by (rule IH [OF _ is_money_round2]) (use "1.prems"(1) in \<open>simp add: compound_loop_step [OF True]\<close>)
  next
    case False
    with "1.prems" show ?thesis by (simp add: compound_loop.simps)
  qed
qed

lemma growth_zero:
  assumes "projected_balance c \<le> 0"
  shows "apply_compound_growth c now so =
     (projected_balance c \<noteq> 0 \<or> next_compound_at c \<noteq> None,
      c\<lparr>projected_balance := 0, next_compound_at := None\<rparr>, so)"
  using assms
  by (auto simp: apply_compound_growth_def ensure_myt_datetime_def Let_def max_def)

lemma growth_positive:
  assumes "0 < projected_balance c"
    and "compound_loop now
           (case next_compound_at c of
              None \<Rightarrow> c\<lparr>next_compound_at := Some (now + COMPOUND_INTERVAL)\<rparr>
            | Some t \<Rightarrow> c)
           so (projected_balance c)
           (case next_compound_at c of None \<Rightarrow> now + COMPOUND_INTERVAL | Some t \<Rightarrow> t)
           (next_compound_at c = None) = (c1, so1, p1, t1, u1)"
  shows "apply_compound_growth c now so =
     (if tol9 < \<bar>p1 - projected_balance c1\<bar> then (True, c1\<lparr>projected_balance := p1\<rparr>, so1)
      else (u1, c1, so1))"
  using assms
  by (cases "next_compound_at c")
     (simp_all add: apply_compound_growth_def ensure_myt_datetime_def Let_def max_def)

lemma growth_scheduled:
  assumes "apply_compound_growth c now so = (u, c', so')" and "is_money (projected_balance c)"
  shows "scheduled c'"
proof (cases "projected_balance c \<le> 0")
  case True
  with assms(1) show ?thesis by (auto simp: growth_zero scheduled_def is_money_0)
next
  case False
  then have pos: "0 < projected_balance c" by simp
  then have p: "1 / 100 \<le> projected_balance c" by (rule money_pos_ge [OF assms(2)])
  let ?c0 = "case next_compound_at c of
              None \<Rightarrow> c\<lparr>next_compound_at := Some (now + COMPOUND_INTERVAL)\<rparr>
            | Some t \<Rightarrow> c"
  let ?t0 = "case next_compound_at c of None \<Rightarrow> now + COMPOUND_INTERVAL | Some t \<Rightarrow> t"
  obtain c1 so1 p1 t1 u1 where loop:
    "compound_loop now ?c0 so (projected_balance c) ?t0 (next_compound_at c = None) =
       (c1, so1, p1, t1, u1)"
    by (metis prod_cases5)
  have c0: "next_compound_at ?c0 = Some ?t0" "projected_balance ?c0 = projected_balance c"
    by (simp_all split: option.splits)
  from compound_loop_post [OF loop p c0]
  have post: "next_compound_at c1 = Some t1" "projected_balance c1 = p1" "1 / 100 \<le> p1"
    by simp_all
  have m: "is_money p1" by (rule compound_loop_money [OF loop assms(2)])
  from assms(1) have "c' = c1"
    unfolding growth_positive [OF pos loop] using post by simp
  with post m show ?thesis by (simp add: scheduled_def)
qed

lemma growth_effect:
  assumes "apply_compound_growth c now (Some s) = (u, c', so)"
  shows "\<exists>new. so = Some (s\<lparr>balance_events := balance_events s @ new\<rparr>) \<and>
     calc_effect c c' new \<and>
     (is_money (projected_balance c) \<and> 0 \<le> projected_balance c \<and> truthy (c_id c) \<longrightarrow>
        chain_from (projected_balance c) new \<and>
        last_balance (projected_balance c) new = projected_balance c')"
proof (cases "projected_balance c \<le> 0")
  case True
  with assms show ?thesis
    by (intro exI [of _ "[]"]) (auto simp: growth_zero calc_effect_def)
next
  case False
  then have pos: "0 < projected_balance c" by simp
  let ?c0 = "case next_compound_at c of
              None \<Rightarrow> c\<lparr>next_compound_at := Some (now + COMPOUND_INTERVAL)\<rparr>
            | Some t \<Rightarrow> c"
  let ?t0 = "case next_compound_at c of None \<Rightarrow> now + COMPOUND_INTERVAL | Some t \<Rightarrow> t"
  obtain c1 so1 p1 t1 u1 where loop:
    "compound_loop now ?c0 (Some s) (projected_balance c) ?t0 (next_compound_at c = None) =
       (c1, so1, p1, t1, u1)"
    by (metis prod_cases5)
  have c0: "next_compound_at ?c0 = Some ?t0" "projected_balance ?c0 = projected_balance c"
    "c_id ?c0 = c_id c" "last_principal ?c0 = last_principal c"
    by (simp_all split: option.splits)
  from compound_loop_events [OF loop] obtain new where new:
    "so1 = Some (s\<lparr>balance_events := balance_events s @ new\<rparr>)" "calc_effect ?c0 c1 new"
    "is_money (projected_balance c) \<and> 1 / 100 \<le> projected_balance c \<and> truthy (c_id ?c0) \<longrightarrow>
       chain_from (projected_balance c) new \<and> last_balance (projected_balance c) new = p1"
    by blast
  from assms have res: "so = so1" "c' = c1 \<or> c' = c1\<lparr>projected_balance := p1\<rparr>"
    unfolding growth_positive [OF pos loop] by (auto split: if_splits)
  have eff: "calc_effect c c' new"
    using new(2) res(2) c0(3,4) by (auto simp: calc_effect_def)
  have "chain_from (projected_balance c) new \<and>
        last_balance (projected_balance c) new = projected_balance c'"
    if a: "is_money (projected_balance c) \<and> 0 \<le> projected_balance c \<and> truthy (c_id c)"
  proof -
    from a pos have p: "1 / 100 \<le> projected_balance c" by (intro money_pos_ge) simp_all
    from compound_loop_post [OF loop p c0(1,2)] have "projected_balance c1 = p1" by simp
    with res(2) have "projected_balance c' = p1" by auto
    with new(3) a p c0(3) show ?thesis by simp
  qed
  with new(1) res(1) eff show ?thesis by blast
qed

lemma adjust_tiny:
  "\<bar>delta\<bar> \<le> tol9 \<Longrightarrow> adjust_projected_balance c delta now so = (False, c, so)"
  by (simp add: adjust_projected_balance_def)

lemma adjust_frame_raw:
  assumes "tol9 < \<bar>delta\<bar>"
  shows "snd (snd (adjust_projected_balance c delta now so)) =
           snd (snd (apply_compound_growth c now so))"
    and "c_id (fst (snd (adjust_projected_balance c delta now so))) =
           c_id (fst (snd (apply_compound_growth c now so)))"
    and "last_principal (fst (snd (adjust_projected_balance c delta now so))) =
           last_principal (fst (snd (apply_compound_growth c now so)))"
  using assms
  by (simp_all add: adjust_projected_balance_def Let_def split_beta ensure_myt_datetime_def)

lemma adjust_final:
  assumes "tol9 < \<bar>delta\<bar>"
    and "apply_compound_growth c now so = (u1, c1, so1)"
    and "is_money (projected_balance c1)" and "0 \<le> projected_balance c1"
    and "adjust_projected_balance c delta now so = (u, c', so')"
  shows "so' = so1 \<and> c_id c' = c_id c1 \<and> last_principal c' = last_principal c1 \<and>
     projected_balance c' = round2 (max (projected_balance c1 + delta) 0) \<and>
     (next_compound_at c' = None \<longleftrightarrow> projected_balance c' = 0)"
proof -
  let ?p = "round2 (max (projected_balance c1 + delta) 0)"
  have p0: "0 \<le> ?p" by (rule round2_nonneg) simp
  have same: "?p = projected_balance c1" if "\<not> tol9 < \<bar>?p - projected_balance c1\<bar>"
    using that by (intro money_close_eq is_money_round2 assms(3)) simp
  have nd: "\<not> \<bar>delta\<bar> \<le> tol9" using assms(1) by simp
  have mx: "max (projected_balance c1) 0 = projected_balance c1" using assms(4) by simp
  show ?thesis
  proof (cases "tol9 < \<bar>?p - projected_balance c1\<bar>")
    case True
    with assms(5) p0 show ?thesis
      unfolding adjust_projected_balance_def assms(2) Let_def ensure_myt_datetime_def
      by (simp only: nd if_False split mx if_True) (auto split: if_splits)
  next
    case False
    from same [OF False] False assms(5) p0 show ?thesis
      unfolding adjust_projected_balance_def assms(2) Let_def ensure_myt_datetime_def
      by (simp only: nd if_False split mx) (auto split: if_splits)
  qed
qed

lemma adjust_scheduled:
  assumes "adjust_projected_balance c delta now so = (u, c', so')" and "scheduled c"
  shows "scheduled c'"
proof (cases "\<bar>delta\<bar> \<le> tol9")
  case True
  with assms show ?thesis by (simp add: adjust_tiny)
next
  case False
  obtain u1 c1 so1 where g: "apply_compound_growth c now so = (u1, c1, so1)"
    by (metis prod_cases3)
  from growth_scheduled [OF g] assms(2) have s1: "scheduled c1" by (simp add: scheduled_def)
  from adjust_final [OF _ g _ _ assms(1)] False s1
  have "projected_balance c' = round2 (max (projected_balance c1 + delta) 0)"
    "next_compound_at c' = None \<longleftrightarrow> projected_balance c' = 0"
    by (simp_all add: scheduled_def)
  then show ?thesis
    using round2_nonneg [of "max (projected_balance c1 + delta) 0"]
    by (simp add: scheduled_def is_money_round2)
qed

lemma scheduled_sane: "scheduled c \<Longrightarrow> sane c"
  by (auto simp: scheduled_def sane_def)

lemma adjust_sane:
  assumes "adjust_projected_balance c delta now so = (u, c', so')" and "sane c"
  shows "sane c'"
proof (cases "\<bar>delta\<bar> \<le> tol9")
  case True
  with assms show ?thesis by (simp add: adjust_tiny)
next
  case False
  obtain u1 c1 so1 where g: "apply_compound_growth c now so = (u1, c1, so1)"
    by (metis prod_cases3)
  from growth_scheduled [OF g] assms(2) have s1: "scheduled c1" by (simp add: sane_def)
  from adjust_final [OF _ g _ _ assms(1)] False s1
  have "projected_balance c' = round2 (max (projected_balance c1 + delta) 0)"
    "next_compound_at c' = None \<longleftrightarrow> projected_balance c' = 0"
    by (simp_all add: scheduled_def)
  then have "scheduled c'"
    using round2_nonneg [of "max (projected_balance c1 + delta) 0"]
    by (simp add: scheduled_def is_money_round2)
  then show ?thesis by (rule scheduled_sane)
qed

lemma growth_sane:
  assumes "apply_compound_growth c now so = (u, c', so')" and "sane c"
  shows "sane c'"
proof -
  from assms(2) have "is_money (projected_balance c)" by (simp add: sane_def)
  from growth_scheduled [OF assms(1) this] show ?thesis by (rule scheduled_sane)
qed

lemma clamp_close:
  fixes x b d r :: real
  assumes "\<bar>x - max (b + d) 0\<bar> \<le> 1 / 200" and "\<bar>r - d\<bar> \<le> 1 / 200"
  shows "\<bar>x - max 0 (b + r)\<bar> \<le> 1 / 100"
proof -
  consider "b + d \<le> 0" "0 \<le> b + r" | "b + d \<le> 0" "\<not> 0 \<le> b + r"
    | "\<not> b + d \<le> 0" "0 \<le> b + r" | "\<not> b + d \<le> 0" "\<not> 0 \<le> b + r"
    by blast
  then show ?thesis
  proof cases
    case 1
    with assms show ?thesis by ((simp only: max_def if_True if_False | linarith)+)
  next
    case 2
    with assms show ?thesis by ((simp only: max_def if_True if_False | linarith)+)
  next
    case 3
    with assms show ?thesis by ((simp only: max_def if_True if_False | linarith)+)
  next
    case 4
    with assms show ?thesis by ((simp only: max_def if_True if_False | linarith)+)
  qed
qed

lemma clamp_round_close:
  "\<bar>round2 (max (b + d) 0) - max 0 (b + round2 d)\<bar> \<le> 1 / 100"
  by (rule clamp_close [OF round2_err round2_err])

lemma adjust_effect:
  assumes "adjust_projected_balance c delta now (Some s) = (u, c', so)"
  shows "\<exists>new. so = Some (s\<lparr>balance_events := balance_events s @ new\<rparr>) \<and>
     calc_effect c c' new \<and>
     (is_money (projected_balance c) \<and> 0 \<le> projected_balance c \<and> truthy (c_id c) \<longrightarrow>
        is_money (projected_balance c') \<and> 0 \<le> projected_balance c' \<and>
        (\<forall>e. change_amount e = round2 delta \<and>
              balance_after e = round2 (max (projected_balance c') 0) \<longrightarrow>
           chain_from (projected_balance c)
             (new @ (if tol9 < \<bar>delta\<bar> then [e] else [])) \<and>
           last_balance (projected_balance c)
             (new @ (if tol9 < \<bar>delta\<bar> then [e] else [])) = projected_balance c'))"
proof (cases "\<bar>delta\<bar> \<le> tol9")
  case True
  with assms have "c' = c" "so = Some s" by (simp_all add: adjust_tiny)
  with True show ?thesis
    by (intro exI [of _ "[]"]) (simp add: calc_effect_def)
next
  case False
  then have big: "tol9 < \<bar>delta\<bar>" by simp
  obtain u1 c1 so1 where g: "apply_compound_growth c now (Some s) = (u1, c1, so1)"
    by (metis prod_cases3)
  from growth_effect [OF g] obtain new where new:
    "so1 = Some (s\<lparr>balance_events := balance_events s @ new\<rparr>)" "calc_effect c c1 new"
    "is_money (projected_balance c) \<and> 0 \<le> projected_balance c \<and> truthy (c_id c) \<longrightarrow>
        chain_from (projected_balance c) new \<and>
        last_balance (projected_balance c) new = projected_balance c1"
    by blast
  have frame: "so = so1 \<and> c_id c' = c_id c1 \<and> last_principal c' = last_principal c1"
    using adjust_frame_raw [OF big, of c now "Some s"] assms g by simp
  have eff: "calc_effect c c' new"
    using new(2) frame by (simp add: calc_effect_def)
  have "is_money (projected_balance c') \<and> 0 \<le> projected_balance c' \<and>
        (\<forall>e. change_amount e = round2 delta \<and>
              balance_after e = round2 (max (projected_balance c') 0) \<longrightarrow>
           chain_from (projected_balance c) (new @ [e]) \<and>
           last_balance (projected_balance c) (new @ [e]) = projected_balance c')"
    if a: "is_money (projected_balance c) \<and> 0 \<le> projected_balance c \<and> truthy (c_id c)"
  proof -
    from growth_scheduled [OF g] a have s1: "scheduled c1" by simp
    then have m1: "is_money (projected_balance c1)" "0 \<le> projected_balance c1"
      by (simp_all add: scheduled_def)
    from adjust_final [OF big g m1 assms]
    have pb: "projected_balance c' = round2 (max (projected_balance c1 + delta) 0)" by simp
    have p0: "0 \<le> projected_balance c'" unfolding pb by (rule round2_nonneg) simp
    have m: "is_money (projected_balance c')" unfolding pb by (rule is_money_round2)
    have r: "round2 (max (projected_balance c') 0) = projected_balance c'"
      using p0 m by (simp add: max_def is_money_def)
    from new(3) a have ch: "chain_from (projected_balance c) new"
      "last_balance (projected_balance c) new = projected_balance c1" by simp_all
    have "\<bar>projected_balance c' - max 0 (projected_balance c1 + round2 delta)\<bar> \<le> 1 / 100"
      unfolding pb by (rule clamp_round_close)
    with ch r m p0 show ?thesis
      by (simp add: chain_from_append last_balance_append)
  qed
  with new(1) frame eff big show ?thesis
    by (intro exI [of _ new]) simp
qed

section \<open>The calculator inside the operations\<close>

lemma adjust_session:
  "\<exists>new. snd (snd (adjust_projected_balance c d now (Some s))) =
          Some (s\<lparr>balance_events := balance_events s @ new\<rparr>)"
  using adjust_effect [of c d now s] by (metis prod.collapse)

lemma growth_session:
  "\<exists>new. snd (snd (apply_compound_growth c now (Some s))) =
          Some (s\<lparr>balance_events := balance_events s @ new\<rparr>)"
  using growth_effect [of c now s] by (metis prod.collapse)

lemma adjust_frame [simp]:
  "customers (session_after (snd (snd (adjust_projected_balance c d now (Some s)))) s0) = customers s"
  "loans (session_after (snd (snd (adjust_projected_balance c d now (Some s)))) s0) = loans s"
  "repayments (session_after (snd (snd (adjust_projected_balance c d now (Some s)))) s0) =
     repayments s"
  "bank_transactions (session_after (snd (snd (adjust_projected_balance c d now (Some s)))) s0) =
     bank_transactions s"
  using adjust_session [of c d now s] by auto

lemma growth_frame [simp]:
  "customers (session_after (snd (snd (apply_compound_growth c now (Some s)))) s0) = customers s"
  "loans (session_after (snd (snd (apply_compound_growth c now (Some s)))) s0) = loans s"
  "repayments (session_after (snd (snd (apply_compound_growth c now (Some s)))) s0) =
     repayments s"
  "bank_transactions (session_after (snd (snd (apply_compound_growth c now (Some s)))) s0) =
     bank_transactions s"
  using growth_session [of c now s] by auto

lemma adjust_id [simp]:
  "c_id (fst (snd (adjust_projected_balance c d now (Some s)))) = c_id c"
  using adjust_effect [of c d now s] by (metis calc_effect_def prod.collapse)

lemma growth_id [simp]:
  "c_id (fst (snd (apply_compound_growth c now (Some s)))) = c_id c"
  using growth_effect [of c now s] by (metis calc_effect_def prod.collapse)

lemma customers_save_customer:
  "customers (save_customer s c) = map (\<lambda>x. if c_id x = c_id c then c else x) (customers s)"
  by (simp add: save_customer_def)

lemma guard_session:
  "ensure_repayment_within_loan_balance s l a ex = Inr s' \<Longrightarrow> s' = s"
  by (simp add: ensure_repayment_within_loan_balance_def Let_def split: if_splits)

section \<open>Predicates on customers that every operation keeps\<close>

lemma found_holds:
  "find_customer s cid = Some c \<Longrightarrow> \<forall>x \<in> set (customers s). P x \<Longrightarrow> P c"
  using find_customer_mem by blast

lemma summary_customer_preserves:
  fixes P :: "customer \<Rightarrow> bool"
  assumes growth: "\<And>c now so. P c \<Longrightarrow> P (fst (snd (apply_compound_growth c now so)))"
    and adjust: "\<And>c d now so. P c \<Longrightarrow> P (fst (snd (adjust_projected_balance c d now so)))"
    and lp: "\<And>c x. P c \<Longrightarrow> P (c\<lparr>last_principal := x\<rparr>)"
    and inv: "\<forall>c \<in> set (customers s). P c" and c: "P c"
  shows "\<forall>x \<in> set (customers (summary_customer now c s)). P x"
  using inv c
  by (auto simp: summary_customer_def refresh_compounded_balance_def Let_def split_beta
        customers_save_customer intro!: lp adjust growth)

lemma get_summary_preserves:
  fixes P :: "customer \<Rightarrow> bool"
  assumes growth: "\<And>c now so. P c \<Longrightarrow> P (fst (snd (apply_compound_growth c now so)))"
    and adjust: "\<And>c d now so. P c \<Longrightarrow> P (fst (snd (adjust_projected_balance c d now so)))"
    and lp: "\<And>c x. P c \<Longrightarrow> P (c\<lparr>last_principal := x\<rparr>)"
    and inv: "\<forall>c \<in> set (customers s). P c"
  shows "\<forall>x \<in> set (customers (get_summary s now)). P x"
proof -
  have "\<forall>c \<in> set cs. P c \<Longrightarrow> \<forall>c \<in> set (customers s0). P c \<Longrightarrow>
      \<forall>x \<in> set (customers (fold (summary_customer now) cs s0)). P x" for cs s0
  proof (induction cs arbitrary: s0)
    case Nil
    then show ?case by simp
  next
    case (Cons c cs)
    have "\<forall>x \<in> set (customers (summary_customer now c s0)). P x"
      by (rule summary_customer_preserves [OF growth adjust lp]) (use Cons.prems in auto)
    with Cons show ?case by simp
  qed
  from this [of "rev (customers s)" s] inv show ?thesis by (simp add: get_summary_def)
qed

lemma step_preserves:
  fixes P :: "customer \<Rightarrow> bool"
  assumes growth: "\<And>c now so. P c \<Longrightarrow> P (fst (snd (apply_compound_growth c now so)))"
    and adjust: "\<And>c d now so. P c \<Longrightarrow> P (fst (snd (adjust_projected_balance c d now so)))"
    and lp: "\<And>c x. P c \<Longrightarrow> P (c\<lparr>last_principal := x\<rparr>)"
    and fresh: "\<And>k. P \<lparr>c_id = k, projected_balance = 0, last_principal = 0,
                       next_compound_at = None\<rparr>"
    and override: "\<And>c t. sets_next_compound_at x \<Longrightarrow> P c \<Longrightarrow>
                     P (c\<lparr>next_compound_at := Some t\<rparr>)"
    and inv: "\<forall>c \<in> set (customers s). P c"
    and step: "step s now x = Inr s'"
  shows "\<forall>c \<in> set (customers s'). P c"
proof (cases x)
  case (CreateCustomer k)
  with step inv fresh show ?thesis
    by (auto simp: create_customer_def split: option.splits if_splits)
next
  case (UpdateCustomerBalance cid payload)
  have ov: "P (c\<lparr>next_compound_at := Some t\<rparr>)"
    if "cbu_next_compound_at payload = Some t" "P c" for c t
    using override [of c t] that UpdateCustomerBalance by simp
  from step inv show ?thesis
    unfolding UpdateCustomerBalance step.simps update_customer_balance_def get_customer_def
    by (auto simp: Let_def split_beta customers_save_customer ensure_myt_datetime_def
          split: option.splits sum.splits if_splits
          intro!: lp adjust growth ov intro: found_holds)
next
  case (CreateLoan code l)
  with step inv show ?thesis
    by (auto simp: create_loan_def get_customer_def Let_def split_beta customers_save_customer
          split: option.splits sum.splits if_splits
          intro!: lp adjust growth intro: found_holds)
next
  case (UpdateLoan lid payload)
  with step inv show ?thesis
    by (auto simp: update_loan_def get_customer_def Let_def split_beta customers_save_customer
          save_loan_def
          split: option.splits sum.splits if_splits
          intro!: lp adjust growth intro: found_holds)
next
  case (DeleteLoan lid)
  with step inv show ?thesis
    by (auto simp: delete_loan_def get_customer_def Let_def split_beta customers_save_customer
          split: option.splits sum.splits if_splits
          intro!: lp adjust growth intro: found_holds)
next
  case (CreateRepayment r)
  with step inv show ?thesis
    by (auto simp: create_repayment_def get_customer_def Let_def split_beta
          customers_save_customer
          split: option.splits sum.splits if_splits
          dest!: guard_session
          intro!: lp adjust growth intro: found_holds)
next
  case (UpdateRepayment rid payload)
  with step inv show ?thesis
    by (auto simp: update_repayment_def get_customer_def Let_def split_beta
          customers_save_customer save_repayment_def
          split: option.splits sum.splits if_splits
          dest!: guard_session
          intro!: lp adjust growth intro: found_holds)
next
  case (DeleteRepayment rid)
  with step inv show ?thesis
    by (auto simp: delete_repayment_def get_customer_def Let_def split_beta
          customers_save_customer
          split: option.splits sum.splits if_splits
          intro!: lp adjust growth intro: found_holds)
next
  case (ManualBankAdjustment amt dir)
  with step inv show ?thesis
    by (auto simp: create_manual_bank_adjustment_def Let_def split_beta split: if_splits)
next
  case (Advance cid)
  with step inv show ?thesis
    by (auto simp: advance_customer_def get_customer_def Let_def split_beta
          customers_save_customer
          split: option.splits sum.splits if_splits
          intro!: lp adjust growth intro: found_holds)
next
  case (ApplyDelta cid delta)
  with step inv show ?thesis
    by (auto simp: apply_delta_customer_def get_customer_def Let_def split_beta
          customers_save_customer
          split: option.splits sum.splits if_splits
          intro!: lp adjust growth intro: found_holds)
next
  case GetSummary
  with step get_summary_preserves [OF growth adjust lp inv] show ?thesis by auto
qed

section \<open>The balance and its schedule in every reachable store\<close>

lemma sane_closed:
  "sane c \<Longrightarrow> sane (fst (snd (apply_compound_growth c now so)))"
  "sane c \<Longrightarrow> sane (fst (snd (adjust_projected_balance c d now so)))"
  "sane c \<Longrightarrow> sane (c\<lparr>last_principal := x\<rparr>)"
  "sane \<lparr>c_id = k, projected_balance = 0, last_principal = 0, next_compound_at = None\<rparr>"
  "sane c \<Longrightarrow> sane (c\<lparr>next_compound_at := Some t\<rparr>)"
proof -
  show "sane c \<Longrightarrow> sane (fst (snd (apply_compound_growth c now so)))"
    using growth_sane [of c now so] by (metis prod.collapse)
  show "sane c \<Longrightarrow> sane (fst (snd (adjust_projected_balance c d now so)))"
    using adjust_sane [of c d now so] by (metis prod.collapse)
qed (simp_all add: sane_def is_money_0)

lemma scheduled_closed:
  "scheduled c \<Longrightarrow> scheduled (fst (snd (apply_compound_growth c now so)))"
  "scheduled c \<Longrightarrow> scheduled (fst (snd (adjust_projected_balance c d now so)))"
  "scheduled c \<Longrightarrow> scheduled (c\<lparr>last_principal := x\<rparr>)"
  "scheduled \<lparr>c_id = k, projected_balance = 0, last_principal = 0, next_compound_at = None\<rparr>"
proof -
  show "scheduled c \<Longrightarrow> scheduled (fst (snd (apply_compound_growth c now so)))"
    using growth_scheduled [of c now so] by (metis prod.collapse scheduled_def)
  show "scheduled c \<Longrightarrow> scheduled (fst (snd (adjust_projected_balance c d now so)))"
    using adjust_scheduled [of c d now so] by (metis prod.collapse)
qed (simp_all add: scheduled_def is_money_0)

lemma run_sane:
  "\<forall>c \<in> set (customers s). sane c \<Longrightarrow> \<forall>c \<in> set (customers (run s ops)). sane c"
proof (induction ops arbitrary: s)
  case Nil
  then show ?case by simp
next
  case (Cons a ops)
  obtain now x where a: "a = (now, x)" by (cases a)
  show ?case
  proof (cases "step s now x")
    case (Inl e)
    with Cons a show ?thesis by simp
  next
    case (Inr s')
    have "\<forall>c \<in> set (customers s'). sane c"
      by (rule step_preserves [where P = sane, OF _ _ _ _ _ Cons.prems Inr])
         (simp_all add: sane_closed)
    with Cons.IH Inr a show ?thesis by simp
  qed
qed

lemma run_scheduled:
  "\<forall>x \<in> set ops. \<not> sets_next_compound_at (snd x) \<Longrightarrow>
   \<forall>c \<in> set (customers s). scheduled c \<Longrightarrow>
   \<forall>c \<in> set (customers (run s ops)). scheduled c"
proof (induction ops arbitrary: s)
  case Nil
  then show ?case by simp
next
  case (Cons a ops)
  obtain now x where a: "a = (now, x)" by (cases a)
  from Cons.prems(1) a have nx: "\<not> sets_next_compound_at x" by simp
  from Cons.prems(1) have rest: "\<forall>x \<in> set ops. \<not> sets_next_compound_at (snd x)" by simp
  show ?case
  proof (cases "step s now x")
    case (Inl e)
    with Cons a rest show ?thesis by simp
  next
    case (Inr s')
    have "\<forall>c \<in> set (customers s'). scheduled c"
      by (rule step_preserves [where P = scheduled, OF _ _ _ _ _ Cons.prems(2) Inr])
         (simp_all add: scheduled_closed nx)
    with Cons.IH [OF rest] Inr a show ?thesis by simp
  qed
qed

text \<open>
  Claim C2, as amended. In every store reached from the empty one by any sequence of
  operations (customer creation, loan and repayment create, update and delete, manual
  balance update, manual ledger adjustment, advance, bare delta and summary read, each at
  any instant, failed ones skipped), every customer has a non-negative projected balance,
  and a positive balance has a next boundary. If no operation of the sequence was a
  balance update that sets \<open>next_compound_at\<close> by hand, the next boundary is absent
  exactly when the balance is zero.
\<close>

theorem reachable_balance_schedule:
  "\<forall>c \<in> set (customers (run empty_session ops)).
     0 \<le> projected_balance c \<and>
     (0 < projected_balance c \<longrightarrow> next_compound_at c \<noteq> None) \<and>
     ((\<forall>x \<in> set ops. \<not> sets_next_compound_at (snd x)) \<longrightarrow>
        (next_compound_at c = None \<longleftrightarrow> projected_balance c = 0))"
proof
  fix c assume c: "c \<in> set (customers (run empty_session ops))"
  have e: "\<forall>c \<in> set (customers empty_session). P c" for P
    by (simp add: empty_session_def)
  from run_sane [OF e] c have "sane c" by blast
  moreover have "scheduled c" if "\<forall>x \<in> set ops. \<not> sets_next_compound_at (snd x)"
    using run_scheduled [OF that e] c by blast
  ultimately show "0 \<le> projected_balance c \<and>
     (0 < projected_balance c \<longrightarrow> next_compound_at c \<noteq> None) \<and>
     ((\<forall>x \<in> set ops. \<not> sets_next_compound_at (snd x)) \<longrightarrow>
        (next_compound_at c = None \<longleftrightarrow> projected_balance c = 0))"
    by (auto simp: sane_def scheduled_def)
qed

text \<open>
  A fresh customer, a loan of 500 and a repayment of 200: the one customer ends with a
  balance of 400.00 and a boundary 30 days after the loan was created.
\<close>

theorem reachable_balance_schedule_witness:
  "customers (run empty_session
     [(0, CreateCustomer None),
      (1000, CreateLoan ''LN-A''
         \<lparr>loan_id = None, loan_customer_id = 1, loan_code = [], loan_date = 1000,
           loan_amount = 500\<rparr>),
      (2000, CreateRepayment
         \<lparr>rep_id = None, rep_customer_id = 1, rep_loan_id = Some 1, repayment_date = 2000,
           repayment_amount = 200\<rparr>)]) =
   [\<lparr>c_id = Some 1, projected_balance = 400, last_principal = 400,
      next_compound_at = Some 2592000001000\<rparr>]
   \<and> (0::real) \<le> 400 \<and> Some (2592000001000::int) \<noteq> None"
proof -
  have r: "customers (run empty_session
     [(0, CreateCustomer None),
      (1000, CreateLoan ''LN-A''
         \<lparr>loan_id = None, loan_customer_id = 1, loan_code = [], loan_date = 1000,
           loan_amount = 500\<rparr>),
      (2000, CreateRepayment
         \<lparr>rep_id = None, rep_customer_id = 1, rep_loan_id = Some 1, repayment_date = 2000,
           repayment_amount = 200\<rparr>)]) =
   [\<lparr>c_id = Some 1, projected_balance = 400, last_principal = 400,
      next_compound_at = Some 2592000001000\<rparr>]"
    by code_simp
  from reachable_balance_schedule [of
     "[(0, CreateCustomer None),
      (1000, CreateLoan ''LN-A''
         \<lparr>loan_id = None, loan_customer_id = 1, loan_code = [], loan_date = 1000,
           loan_amount = 500\<rparr>),
      (2000, CreateRepayment
         \<lparr>rep_id = None, rep_customer_id = 1, rep_loan_id = Some 1, repayment_date = 2000,
           repayment_amount = 200\<rparr>)]"]
  show ?thesis unfolding r by simp
qed

text \<open>
  Claim C2 as stated fails through \<open>update_customer_balance\<close>: a request that carries
  only \<open>next_compound_at\<close> needs no loan, changes no balance and stores the boundary,
  so a fresh customer ends with a zero balance and a boundary.
\<close>

theorem reachable_balance_schedule_counterexample:
  "customers (run empty_session
     [(0, CreateCustomer None),
      (0, UpdateCustomerBalance 1
         \<lparr>cbu_loan_code = None, cbu_loan_id = None, cbu_projected_balance = None,
           cbu_adjust_amount = 0, cbu_next_compound_at = Some 5\<rparr>)]) =
   [\<lparr>c_id = Some 1, projected_balance = 0, last_principal = 0, next_compound_at = Some 5\<rparr>]"
  by code_simp

text \<open>
  Claim C4. In every store reached from the empty one by any sequence of operations,
  \<open>_apply_compound_growth\<close> is idempotent on every customer row and at every instant
  \<open>now\<close>: after one call, a second call with the same \<open>now\<close> (on the customer and
  the session the first call returned) reports no update, returns the customer as it
  was, so that the projected balance and the next boundary are unchanged, and returns the session
  as it was, so that no further \<open>compound_growth\<close> event is written. The call may be
  given any session or none.
\<close>

theorem advance_idempotent:
  assumes "c \<in> set (customers (run empty_session ops))"
    and "apply_compound_growth c now sess = (u, c', sess')"
  shows "apply_compound_growth c' now sess' = (False, c', sess')"
proof -
  have "\<forall>c \<in> set (customers empty_session). sane c"
    by (simp add: empty_session_def)
  from run_sane [OF this] assms(1) have "sane c" by blast
  then have "is_money (projected_balance c)" by (simp add: sane_def)
  then have "projected_balance c \<le> 0 \<or> 1 / 100 \<le> projected_balance c"
    using money_pos_ge [of "projected_balance c"] by linarith
  then show ?thesis using assms(2) by (rule growth_twice)
qed

text \<open>
  A fresh customer takes a loan of 500 less a repayment of 200 at time 1000; the boundary
  lies 30 days later. Advancing the stored customer one day after that boundary gives
  480.00 and one event; advancing again at the same instant changes nothing.
\<close>

theorem advance_idempotent_witness:
  "apply_compound_growth
     \<lparr>c_id = Some 1, projected_balance = 480, last_principal = 400,
       next_compound_at = Some 5184000001000\<rparr>
     2678400001000
     (Some (empty_session\<lparr>balance_events :=
        [\<lparr>ev_id = 1, ev_customer_id = 1, event_type = ''compound_growth'',
          event_time = 2592000001000, change_amount = 80, balance_after = 480\<rparr>]\<rparr>)) =
   (False,
    \<lparr>c_id = Some 1, projected_balance = 480, last_principal = 400,
      next_compound_at = Some 5184000001000\<rparr>,
    Some (empty_session\<lparr>balance_events :=
        [\<lparr>ev_id = 1, ev_customer_id = 1, event_type = ''compound_growth'',
          event_time = 2592000001000, change_amount = 80, balance_after = 480\<rparr>]\<rparr>))"
proof -
  have r: "\<lparr>c_id = Some 1, projected_balance = 400, last_principal = 400,
      next_compound_at = Some 2592000001000\<rparr> \<in> set (customers (run empty_session
     [(0, CreateCustomer None),
      (1000, CreateLoan ''LN-A''
         \<lparr>loan_id = None, loan_customer_id = 1, loan_code = [], loan_date = 1000,
           loan_amount = 500\<rparr>),
      (2000, CreateRepayment
         \<lparr>rep_id = None, rep_customer_id = 1, rep_loan_id = Some 1, repayment_date = 2000,
           repayment_amount = 200\<rparr>)]))"
    by code_simp
  have first: "apply_compound_growth
     \<lparr>c_id = Some 1, projected_balance = 400, last_principal = 400,
       next_compound_at = Some 2592000001000\<rparr>
     2678400001000 (Some empty_session) =
   (True,
    \<lparr>c_id = Some 1, projected_balance = 480, last_principal = 400,
      next_compound_at = Some 5184000001000\<rparr>,
    Some (empty_session\<lparr>balance_events :=
        [\<lparr>ev_id = 1, ev_customer_id = 1, event_type = ''compound_growth'',
          event_time = 2592000001000, change_amount = 80, balance_after = 480\<rparr>]\<rparr>))"
    by (simp add: apply_compound_growth_def ensure_myt_datetime_def Let_def
        compound_loop.simps COMPOUND_INTERVAL_def COMPOUND_INTEREST_RATE_def
        round2_def round_half_even_def record_balance_event_def round_amount_def
        empty_session_def)
  show ?thesis
    by (rule advance_idempotent [OF r first])
qed

section \<open>The events an operation appends\<close>

lemma adjust_balance_events [simp]:
  "balance_events (session_after (snd (snd (adjust_projected_balance c d now (Some s)))) s0) =
   balance_events s @ adjust_events c d now s"
  using adjust_session [of c d now s] by (auto simp: adjust_events_def)

lemma growth_balance_events [simp]:
  "balance_events (session_after (snd (snd (apply_compound_growth c now (Some s)))) s0) =
   balance_events s @ growth_events c now s"
  using growth_session [of c now s] by (auto simp: growth_events_def)

lemma record_balance_events [simp]:
  "balance_events (record_balance_event s c ty d t) =
   balance_events s @ recorded (length (balance_events s)) c ty d t"
  by (simp add: record_balance_event_def recorded_def round_amount_def split: option.splits)

lemma recorded_last_principal [simp]:
  "recorded n (c\<lparr>last_principal := x\<rparr>) ty d t = recorded n c ty d t"
  by (cases "c_id c") (simp_all add: recorded_def)






section \<open>Keeping the timelines in order\<close>







section \<open>Each operation keeps the timelines in order\<close>


















section \<open>The balance timeline of every reachable store\<close>




end
